theory Spec2Isabelle
  imports Complex_Main "HOL-Library.Sublist"
begin

section \<open>Python values, exceptions and string operations\<close>

text \<open>
  The answer-quality pipeline of \<^verbatim>\<open>faff_qa.py\<close> threads a state record through four
  stages, three of which decode a model response with \<^verbatim>\<open>json.loads\<close>. A decoded value is
  any Python value that JSON can denote. A dictionary is an association list read with
  \<open>map_of\<close>; a Python dictionary has no repeated key. A character is a code point
  below 256. A float is a real number (the tokens NaN and Infinity are not represented;
  the code only tests a number for being zero).
\<close>

datatype pyval =
    PNone
  | PBool bool
  | PInt int
  | PFloat real
  | PStr string
  | PList "pyval list"
  | PDict "(string \<times> pyval) list"

type_synonym dict = "(string \<times> pyval) list"

text \<open>
  The exceptions the modelled code can raise. \<open>ServiceError\<close> stands for whatever the
  client library raises from \<^verbatim>\<open>client.messages.create\<close>, \<open>ValidationError\<close> for a
  value that does not fit the declared type of a state field, \<open>DecoderError\<close> for an
  exception of \<^verbatim>\<open>json.loads\<close> that is not a \<^verbatim>\<open>json.JSONDecodeError\<close> (it carries the name
  of the exception).
\<close>

datatype error =
    ValueError string
  | TypeError string
  | IndexError
  | KeyError string
  | ServiceError string
  | ValidationError string
  | DecoderError string

definition and_then :: "error + 'a \<Rightarrow> ('a \<Rightarrow> error + 'b) \<Rightarrow> error + 'b" where
  "and_then m f = (case m of Inl e \<Rightarrow> Inl e | Inr x \<Rightarrow> f x)"

text \<open>Truth value testing (\<^verbatim>\<open>if x\<close>, \<^verbatim>\<open>not x\<close>, \<^verbatim>\<open>x or y\<close>).\<close>

fun truthy :: "pyval \<Rightarrow> bool" where
  "truthy PNone = False"
| "truthy (PBool b) = b"
| "truthy (PInt i) = (i \<noteq> 0)"
| "truthy (PFloat r) = (r \<noteq> 0)"
| "truthy (PStr s) = (s \<noteq> [])"
| "truthy (PList xs) = (xs \<noteq> [])"
| "truthy (PDict d) = (d \<noteq> [])"

text \<open>\<^verbatim>\<open>x or y\<close>: the first operand when it is true, else the second.\<close>

definition py_or :: "pyval \<Rightarrow> pyval \<Rightarrow> pyval" where
  "py_or x y = (if truthy x then x else y)"

text \<open>\<^verbatim>\<open>d.get(key, default)\<close> on a dictionary.\<close>

definition dict_get :: "dict \<Rightarrow> string \<Rightarrow> pyval \<Rightarrow> pyval" where
  "dict_get d k dflt = (case map_of d k of Some v \<Rightarrow> v | None \<Rightarrow> dflt)"

text \<open>An optional string field read as a value: \<^verbatim>\<open>None\<close> when it is not set.\<close>

definition opt_str :: "string option \<Rightarrow> pyval" where
  "opt_str x = (case x of None \<Rightarrow> PNone | Some s \<Rightarrow> PStr s)"

text \<open>
  \<open>find_sep sep s\<close> cuts \<open>s\<close> at the leftmost occurrence of \<open>sep\<close>: the text before
  it and the text after it.
\<close>

fun find_sep :: "string \<Rightarrow> string \<Rightarrow> (string \<times> string) option" where
  "find_sep sep [] = (if sep = [] then Some ([], []) else None)"
| "find_sep sep (c # cs) =
     (if prefix sep (c # cs) then Some ([], drop (length sep) (c # cs))
      else (case find_sep sep cs of
              None \<Rightarrow> None
            | Some (a, b) \<Rightarrow> Some (c # a, b)))"

lemma find_sep_shorter:
  "find_sep sep s = Some (a, b) \<Longrightarrow> sep \<noteq> [] \<Longrightarrow> length b < length s"
proof (induction s arbitrary: a b)
  case Nil
  then show ?case by simp
next
  case (Cons c cs)
  show ?case
  proof (cases "prefix sep (c # cs)")
    case True
    with Cons.prems show ?thesis by auto
  next
    case False
    with Cons.prems obtain a' where "find_sep sep cs = Some (a', b)"
      by (auto split: option.splits)
    with Cons.IH Cons.prems(2) show ?thesis by fastforce
  qed
qed

text \<open>
  \<^verbatim>\<open>s.split(sep)\<close>: the parts of \<open>s\<close> between the occurrences of \<open>sep\<close>, found from the
  left without overlap. An empty separator raises \<^verbatim>\<open>ValueError\<close>; \<open>split_parts\<close> is
  only reached with a separator that is not empty.
\<close>

function split_parts :: "string \<Rightarrow> string \<Rightarrow> string list" where
  "split_parts sep s =
     (if sep = [] then [s]
      else (case find_sep sep s of
              None \<Rightarrow> [s]
            | Some (a, b) \<Rightarrow> a # split_parts sep b))"
  by pat_completeness auto
termination
  by (relation "measure (\<lambda>(sep, s). length s)") (auto simp: find_sep_shorter)

definition py_split :: "string \<Rightarrow> string \<Rightarrow> error + string list" where
  "py_split s sep =
     (if sep = [] then Inl (ValueError ''empty separator'') else Inr (split_parts sep s))"

text \<open>\<^verbatim>\<open>xs[i]\<close> for an index that is not negative.\<close>

definition py_index :: "'a list \<Rightarrow> nat \<Rightarrow> error + 'a" where
  "py_index xs i = (if i < length xs then Inr (xs ! i) else Inl IndexError)"

text \<open>\<^verbatim>\<open>s.strip()\<close>: the whitespace characters below 256 are those of \<^verbatim>\<open>str.isspace\<close>.\<close>

definition py_isspace :: "char \<Rightarrow> bool" where
  "py_isspace c = (of_char c \<in> {9, 10, 11, 12, 13, 28, 29, 30, 31, 32, 133, 160 :: nat})"

definition py_strip :: "string \<Rightarrow> string" where
  "py_strip s = rev (dropWhile py_isspace (rev (dropWhile py_isspace s)))"

section \<open>Extraction of the JSON text from a model response\<close>

text \<open>
  Lines 115--120 of \<^verbatim>\<open>check_adequacy\<close> and lines 179--184 of \<^verbatim>\<open>improve_formatting\<close>
  are the same statements:
  \<^verbatim>\<open>
  if "```json" in response_text:
      json_content = response_text.split("```json")[1].split("```")[0].strip()
  elif "```" in response_text:
      json_content = response_text.split("```")[1].split("```")[0].strip()
  else:
      json_content = response_text.strip()
  \<close>
  \<^verbatim>\<open>x in s\<close> on strings is \<open>sublist x s\<close>.
\<close>

definition fenced :: "string \<Rightarrow> string \<Rightarrow> error + string" where
  "fenced response_text opener =
     and_then (py_split response_text opener) (\<lambda>parts.
     and_then (py_index parts 1) (\<lambda>body.
     and_then (py_split body ''```'') (\<lambda>pieces.
     and_then (py_index pieces 0) (\<lambda>content.
     Inr (py_strip content)))))"

definition extract_json_content :: "string \<Rightarrow> error + string" where
  "extract_json_content response_text =
     (if sublist ''```json'' response_text then fenced response_text ''```json''
      else if sublist ''```'' response_text then fenced response_text ''```''
      else Inr (py_strip response_text))"

text \<open>
  \<^verbatim>\<open>json.loads\<close> belongs to the standard library: it is a parameter \<open>loads\<close>. On a text
  it returns the decoded value, raises \<^verbatim>\<open>json.JSONDecodeError\<close> when the text is not JSON,
  or raises another exception: \<^verbatim>\<open>RecursionError\<close> on a text nested deeper than the
  interpreter allows, \<^verbatim>\<open>ValueError\<close> on an integer literal longer than the digit limit.
  The \<^verbatim>\<open>try\<close> block (lines 113--130 and 177--193) catches \<^verbatim>\<open>json.JSONDecodeError\<close> only:
  any other exception of the decoder, and any exception of the extraction, passes
  through.
\<close>

datatype loads_result =
    Loaded pyval
  | JSONDecodeError
  | LoadsRaised string

type_synonym decoder = "string \<Rightarrow> loads_result"

definition parse_response :: "decoder \<Rightarrow> string \<Rightarrow> pyval \<Rightarrow> error + pyval" where
  "parse_response loads response_text fallback =
     and_then (extract_json_content response_text) (\<lambda>json_content.
       case loads json_content of
         Loaded v \<Rightarrow> Inr v
       | JSONDecodeError \<Rightarrow> Inr fallback
       | LoadsRaised name \<Rightarrow> Inl (DecoderError name))"

section \<open>The pipeline state and its surroundings\<close>

text \<open>
  \<^verbatim>\<open>AgentState\<close> (lines 9--15) declares six fields and no other: the query and the
  proposed answer are strings, the grammar-fixed and the final answer are declared
  \<^verbatim>\<open>Optional[str]\<close>, the two assessments \<^verbatim>\<open>Optional[Dict]\<close>.
\<close>

record AgentState =
  user_query :: string
  proposed_answer :: string
  grammar_fixed_answer :: "string option"
  adequacy_assessment :: "dict option"
  format_assessment :: "dict option"
  final_answer :: "string option"

text \<open>
  One call of \<^verbatim>\<open>client.messages.create\<close> followed by \<^verbatim>\<open>message.content[0].text\<close>: a
  client maps the request to the text of the first content block, or fails (\<open>Inl\<close>, with
  a description of the exception of the client library).
\<close>

record request =
  model :: string
  max_tokens :: nat
  temperature :: real
  system :: string
  messages :: "(string \<times> string) list"

type_synonym client = "request \<Rightarrow> string + string"

text \<open>
  What the code reads from outside itself: the environment variable
  \<^verbatim>\<open>ANTHROPIC_API_KEY\<close>, the constructor \<^verbatim>\<open>anthropic.Anthropic\<close>, \<^verbatim>\<open>json.loads\<close>, the
  conversion \<^verbatim>\<open>str\<close> of a value that is not a string (used by the f-strings), and what
  the body of \<^verbatim>\<open>load_formatting_examples_from_csv\<close> (lines 24--46) gives when it reads
  its file.
\<close>

record world =
  environ_api_key :: "string option"
  anthropic :: "string \<Rightarrow> client"
  json_loads :: decoder
  str_of :: "pyval \<Rightarrow> string"
  csv_examples :: "error + dict list"

definition fstr :: "world \<Rightarrow> pyval \<Rightarrow> string" where
  "fstr w v = (case v of PStr s \<Rightarrow> s | _ \<Rightarrow> str_of w v)"

text \<open>\<^verbatim>\<open>str(n)\<close> for a natural number.\<close>

fun str_nat :: "nat \<Rightarrow> string" where
  "str_nat n =
     (if n < 10 then [char_of (48 + n)]
      else str_nat (n div 10) @ [char_of (48 + n mod 10)])"

text \<open>Lines 17--21.\<close>

definition get_claude_client :: "world \<Rightarrow> string option \<Rightarrow> error + client" where
  "get_claude_client w api_key =
     (let api_key = (if truthy (opt_str api_key) then api_key else environ_api_key w) in
      if \<not> truthy (opt_str api_key)
      then Inl (ValueError
        ''API key must be provided or set as ANTHROPIC_API_KEY environment variable'')
      else (case api_key of
              Some k \<Rightarrow> Inr (anthropic w k)
            | None \<Rightarrow> Inl (ValueError
        ''API key must be provided or set as ANTHROPIC_API_KEY environment variable'')))"

text \<open>\<^verbatim>\<open>if not client: client = get_claude_client()\<close>, the first statement of every stage.\<close>

definition ensure_client :: "world \<Rightarrow> client option \<Rightarrow> error + client" where
  "ensure_client w client =
     (case client of Some c \<Rightarrow> Inr c | None \<Rightarrow> get_claude_client w None)"

definition create_message :: "client \<Rightarrow> request \<Rightarrow> error + string" where
  "create_message c r = (case c r of Inl m \<Rightarrow> Inl (ServiceError m) | Inr t \<Rightarrow> Inr t)"

definition claude_model :: string where
  "claude_model = ''claude-3-7-sonnet-20250219''"

section \<open>Stage 1: \<^verbatim>\<open>fix_grammar\<close> (lines 49--76)\<close>

definition grammar_prompt :: "AgentState \<Rightarrow> string" where
  "grammar_prompt state =
     ''I need you to fix ONLY critical grammar issues in the following answer.\<newline>'' @
     ''Make the absolute minimum changes necessary - only fix clear grammatical errors.\<newline>'' @
     ''Do not:\<newline>'' @
     ''- Change word choice unless absolutely necessary for grammar\<newline>'' @
     ''- Alter sentence structure\<newline>'' @
     ''- Modify punctuation unless it's grammatically incorrect\<newline>'' @
     ''- Change the style, tone, formality level, or voice\<newline>'' @
     ''- Add or remove information\<newline>'' @
     ''\<newline>'' @
     ''The text should read almost identically to the original, just with grammar errors fixed.\<newline>'' @
     ''Return ONLY the corrected text with no additional explanations.\<newline>'' @
     ''\<newline>'' @
     ''Original answer: '' @ proposed_answer state"

definition grammar_system :: string where
  "grammar_system =
     ''You are a conservative grammar editor. Your job is to make the absolute minimum '' @
     ''changes necessary to fix only clear grammatical errors. Preserve the author's '' @
     ''original words, style and voice completely.''"

text \<open>Every stage returns a dictionary: the update of the state.\<close>

text \<open>The request of lines 67--73.\<close>

definition grammar_request :: "AgentState \<Rightarrow> request" where
  "grammar_request state =
     \<lparr>model = claude_model, max_tokens = 1024, temperature = 0,
      system = grammar_system, messages = [(''user'', grammar_prompt state)]\<rparr>"

definition fix_grammar :: "world \<Rightarrow> AgentState \<Rightarrow> client option \<Rightarrow> error + dict" where
  "fix_grammar w state client =
     and_then (ensure_client w client) (\<lambda>c.
     and_then (create_message c (grammar_request state)) (\<lambda>grammar_fixed_answer.
     Inr [(''grammar_fixed_answer'', PStr grammar_fixed_answer)]))"

section \<open>Stage 2: \<^verbatim>\<open>check_adequacy\<close> (lines 78--132)\<close>

text \<open>\<^verbatim>\<open>state.grammar_fixed_answer or state.proposed_answer\<close> (lines 82, 129, 140 and 207).\<close>

definition grammar_fixed_or_proposed :: "AgentState \<Rightarrow> pyval" where
  "grammar_fixed_or_proposed state =
     py_or (opt_str (grammar_fixed_answer state)) (PStr (proposed_answer state))"

definition adequacy_prompt :: "world \<Rightarrow> AgentState \<Rightarrow> string" where
  \<open>adequacy_prompt w state =
     ''Evaluate if the proposed answer adequately and explicitly addresses the user's query.\<newline>'' @
     ''\<newline>'' @
     ''User Query: '' @ user_query state @ ''\<newline>'' @
     ''\<newline>'' @
     ''Proposed Answer: '' @ fstr w (grammar_fixed_or_proposed state) @ ''\<newline>'' @
     ''\<newline>'' @
     ''Your task:\<newline>'' @
     ''1. Identify if the answer fully addresses all aspects of the user's query\<newline>'' @
     ''2. Check if any important information is missing\<newline>'' @
     ''3. Note if the answer contains irrelevant information\<newline>'' @
     ''4. Suggest specific improvements if needed\<newline>'' @
     ''\<newline>'' @
     ''Return your evaluation as JSON with these fields:\<newline>'' @
     ''- "adequately_addressed": boolean\<newline>'' @
     ''- "missing_aspects": list of strings (empty if none)\<newline>'' @
     ''- "suggestions": list of specific improvements (empty if none)\<newline>'' @
     ''- "improved_answer": the answer with your suggested improvements incorporated (if any, otherwise return the original)\<newline>''\<close>

definition adequacy_system :: string where
  "adequacy_system =
     ''You are an expert at evaluating customer service responses. Be thorough but '' @
     ''practical in your assessment. Only suggest changes when truly necessary to '' @
     ''address the user's query.''"

text \<open>The dictionary of lines 125--130, substituted when decoding fails.\<close>

definition adequacy_fallback :: "AgentState \<Rightarrow> pyval" where
  "adequacy_fallback state = PDict
     [(''adequately_addressed'', PBool False),
      (''missing_aspects'', PList [PStr ''Unable to parse assessment'']),
      (''suggestions'', PList [PStr ''Error processing assessment'']),
      (''improved_answer'', grammar_fixed_or_proposed state)]"

text \<open>The request of lines 103--109.\<close>

definition adequacy_request :: "world \<Rightarrow> AgentState \<Rightarrow> request" where
  "adequacy_request w state =
     \<lparr>model = claude_model, max_tokens = 2048, temperature = 0,
      system = adequacy_system, messages = [(''user'', adequacy_prompt w state)]\<rparr>"

definition check_adequacy :: "world \<Rightarrow> AgentState \<Rightarrow> client option \<Rightarrow> error + dict" where
  "check_adequacy w state client =
     and_then (ensure_client w client) (\<lambda>c.
     and_then (create_message c (adequacy_request w state)) (\<lambda>response_text.
     and_then (parse_response (json_loads w) response_text (adequacy_fallback state))
       (\<lambda>adequacy_assessment.
     Inr [(''adequacy_assessment'', adequacy_assessment)])))"

section \<open>Stage 3: \<^verbatim>\<open>improve_formatting\<close> (lines 134--195)\<close>

text \<open>
  \<^verbatim>\<open>a.get("improved_answer", "") if a else ""\<close> for an assessment field \<open>a\<close> of the state
  (lines 138, 203 and 206).
\<close>

definition improved_answer_of :: "dict option \<Rightarrow> pyval" where
  "improved_answer_of a =
     (case a of
        Some d \<Rightarrow> if truthy (PDict d) then dict_get d ''improved_answer'' (PStr []) else PStr []
      | None \<Rightarrow> PStr [])"

text \<open>Lines 138--140.\<close>

definition current_answer :: "AgentState \<Rightarrow> pyval" where
  "current_answer state =
     (let current_answer = improved_answer_of (adequacy_assessment state) in
      if \<not> truthy current_answer then grammar_fixed_or_proposed state else current_answer)"

text \<open>\<^verbatim>\<open>d[key]\<close> on a dictionary.\<close>

definition dict_item :: "dict \<Rightarrow> string \<Rightarrow> error + pyval" where
  "dict_item d k = (case map_of d k of Some v \<Rightarrow> Inr v | None \<Rightarrow> Inl (KeyError k))"

text \<open>Line 142.\<close>

definition examples_to_use :: "dict list \<Rightarrow> dict list" where
  "examples_to_use formatting_examples = take 5 formatting_examples"

text \<open>
  One turn of the loop of lines 145--150: the text that the four statements
  \<^verbatim>\<open>examples_text += ...\<close> append for the example at index \<open>i\<close>. Each reads one key of
  the example, which raises \<^verbatim>\<open>KeyError\<close> when the key is missing.
\<close>

definition example_block :: "world \<Rightarrow> nat \<Rightarrow> dict \<Rightarrow> error + string" where
  "example_block w i example =
     and_then (dict_item example ''task'') (\<lambda>task.
     and_then (dict_item example ''bad_format'') (\<lambda>bad_format.
     and_then (dict_item example ''good_format'') (\<lambda>good_format.
     and_then (dict_item example ''explanation'') (\<lambda>explanation.
     Inr (''\<newline>Example '' @ str_nat (i + 1) @ '':\<newline>'' @
          ''User Query: '' @ fstr w task @ ''\<newline>'' @
          ''Bad format: '' @ fstr w bad_format @ ''\<newline>'' @
          ''Good format: '' @ fstr w good_format @ ''\<newline>'' @
          ''Changes made: '' @ fstr w explanation @ ''\<newline>'')))))"

text \<open>
  The loop over \<^verbatim>\<open>enumerate(examples_to_use)\<close>; the third argument is \<^verbatim>\<open>examples_text\<close>
  as built so far.
\<close>

fun examples_loop :: "world \<Rightarrow> (nat \<times> dict) list \<Rightarrow> string \<Rightarrow> error + string" where
  "examples_loop w [] examples_text = Inr examples_text"
| "examples_loop w ((i, example) # rest) examples_text =
     (case example_block w i example of
        Inl e \<Rightarrow> Inl e
      | Inr block \<Rightarrow> examples_loop w rest (examples_text @ block))"

definition examples_text :: "world \<Rightarrow> dict list \<Rightarrow> error + string" where
  "examples_text w formatting_examples =
     examples_loop w (enumerate 0 (examples_to_use formatting_examples)) []"

definition formatting_prompt :: "world \<Rightarrow> AgentState \<Rightarrow> string \<Rightarrow> pyval \<Rightarrow> string" where
  \<open>formatting_prompt w state examples_txt answer =
     ''Improve the formatting of this customer service answer to make it more readable and user-friendly.\<newline>'' @
     ''Keep the content largely the same, but apply formatting best practices based on these examples:\<newline>'' @
     ''\<newline>'' @
     examples_txt @ ''\<newline>'' @
     ''\<newline>'' @
     ''Current Task: '' @ user_query state @ ''\<newline>'' @
     ''Current Answer:\<newline>'' @
     fstr w answer @ ''\<newline>'' @
     ''\<newline>'' @
     ''Return your assessment as JSON with these fields:\<newline>'' @
     ''- "formatting_issues": list of formatting issues identified\<newline>'' @
     ''- "improvements_made": list of improvements you made\<newline>'' @
     ''- "improved_answer": the answer with better formatting\<newline>''\<close>

definition formatting_system :: string where
  "formatting_system =
     ''You are an expert at formatting customer service responses for maximum '' @
     ''readability and clarity. Apply the patterns from good examples while preserving '' @
     ''the meaning and content of the answer.''"

text \<open>The request of lines 167--173.\<close>

definition formatting_request :: "world \<Rightarrow> AgentState \<Rightarrow> dict list \<Rightarrow> error + request" where
  "formatting_request w state formatting_examples =
     and_then (examples_text w formatting_examples) (\<lambda>examples_text.
     Inr \<lparr>model = claude_model, max_tokens = 2048, temperature = 0,
          system = formatting_system,
          messages = [(''user'',
            formatting_prompt w state examples_text (current_answer state))]\<rparr>)"

text \<open>The dictionary of lines 189--193.\<close>

definition format_fallback :: "pyval \<Rightarrow> pyval" where
  "format_fallback answer = PDict
     [(''formatting_issues'', PList [PStr ''Unable to parse assessment'']),
      (''improvements_made'', PList [PStr ''Error processing formatting'']),
      (''improved_answer'', answer)]"

definition improve_formatting ::
    "world \<Rightarrow> AgentState \<Rightarrow> dict list \<Rightarrow> client option \<Rightarrow> error + dict" where
  "improve_formatting w state formatting_examples client =
     and_then (ensure_client w client) (\<lambda>c.
     and_then (formatting_request w state formatting_examples) (\<lambda>r.
     and_then (create_message c r) (\<lambda>response_text.
     and_then (parse_response (json_loads w) response_text
                 (format_fallback (current_answer state)))
       (\<lambda>format_assessment.
     Inr [(''format_assessment'', format_assessment)]))))"

section \<open>Stage 4: \<^verbatim>\<open>create_final_answer\<close> (lines 198--228)\<close>

text \<open>Lines 203--207.\<close>

definition formatted_answer :: "AgentState \<Rightarrow> pyval" where
  "formatted_answer state =
     (let formatted_answer = improved_answer_of (format_assessment state) in
      if \<not> truthy formatted_answer
      then (let adequacy_answer = improved_answer_of (adequacy_assessment state) in
            py_or adequacy_answer (grammar_fixed_or_proposed state))
      else formatted_answer)"

text \<open>Lines 210--212.\<close>

definition adequacy_changes :: "AgentState \<Rightarrow> pyval" where
  "adequacy_changes state =
     (case adequacy_assessment state of
        Some d \<Rightarrow>
          if truthy (PDict d) \<and> \<not> truthy (dict_get d ''adequately_addressed'' (PBool True))
          then dict_get d ''suggestions'' (PList [])
          else PList []
      | None \<Rightarrow> PList [])"

text \<open>Lines 214--216.\<close>

definition formatting_changes :: "AgentState \<Rightarrow> pyval" where
  "formatting_changes state =
     (case format_assessment state of
        Some d \<Rightarrow>
          if truthy (PDict d) then dict_get d ''improvements_made'' (PList []) else PList []
      | None \<Rightarrow> PList [])"

text \<open>Line 223.\<close>

definition grammar_changed :: "AgentState \<Rightarrow> bool" where
  "grammar_changed state =
     (if truthy (opt_str (grammar_fixed_answer state))
      then opt_str (grammar_fixed_answer state) \<noteq> PStr (proposed_answer state)
      else False)"

text \<open>Lines 222--226.\<close>

definition changes_summary :: "AgentState \<Rightarrow> pyval" where
  "changes_summary state = PDict
     [(''grammar_changed'', PBool (grammar_changed state)),
      (''adequacy_issues'', adequacy_changes state),
      (''formatting_improvements'', formatting_changes state)]"

definition create_final_answer :: "world \<Rightarrow> AgentState \<Rightarrow> client option \<Rightarrow> error + dict" where
  "create_final_answer w state client =
     and_then (ensure_client w client) (\<lambda>c.
     Inr [(''final_answer'', formatted_answer state),
          (''changes_summary'', changes_summary state)])"

section \<open>The graph and \<^verbatim>\<open>process_answer\<close> (lines 231--294)\<close>

text \<open>
  The graph runtime is a library. The model follows the way the code uses it: the four
  nodes run in the order of the edges (lines 245--251), each on the state left by the one
  before, and the dictionary a node returns is written to the state key by key. A value
  is kept only in a field that \<^verbatim>\<open>AgentState\<close> declares, and it has the declared type of that
  field (\<^verbatim>\<open>ValidationError\<close> otherwise); a key that names no field of \<^verbatim>\<open>AgentState\<close> has no
  place in the state. The result of \<^verbatim>\<open>graph.invoke\<close> is read by attribute (lines 288--292),
  as a state.
\<close>

datatype stage = Fix_grammar | Check_adequacy | Improve_formatting | Create_final

definition as_str :: "string \<Rightarrow> pyval \<Rightarrow> error + string" where
  "as_str k v = (case v of PStr s \<Rightarrow> Inr s | _ \<Rightarrow> Inl (ValidationError k))"

definition as_optional_str :: "string \<Rightarrow> pyval \<Rightarrow> error + string option" where
  "as_optional_str k v =
     (case v of PNone \<Rightarrow> Inr None | PStr s \<Rightarrow> Inr (Some s) | _ \<Rightarrow> Inl (ValidationError k))"

definition as_optional_dict :: "string \<Rightarrow> pyval \<Rightarrow> error + dict option" where
  "as_optional_dict k v =
     (case v of PNone \<Rightarrow> Inr None | PDict d \<Rightarrow> Inr (Some d) | _ \<Rightarrow> Inl (ValidationError k))"

definition set_field :: "AgentState \<Rightarrow> string \<times> pyval \<Rightarrow> error + AgentState" where
  "set_field state kv =
     (case kv of (k, v) \<Rightarrow>
        if k = ''user_query''
        then and_then (as_str k v) (\<lambda>x. Inr (state\<lparr>user_query := x\<rparr>))
        else if k = ''proposed_answer''
        then and_then (as_str k v) (\<lambda>x. Inr (state\<lparr>proposed_answer := x\<rparr>))
        else if k = ''grammar_fixed_answer''
        then and_then (as_optional_str k v) (\<lambda>x. Inr (state\<lparr>grammar_fixed_answer := x\<rparr>))
        else if k = ''adequacy_assessment''
        then and_then (as_optional_dict k v) (\<lambda>x. Inr (state\<lparr>adequacy_assessment := x\<rparr>))
        else if k = ''format_assessment''
        then and_then (as_optional_dict k v) (\<lambda>x. Inr (state\<lparr>format_assessment := x\<rparr>))
        else if k = ''final_answer''
        then and_then (as_optional_str k v) (\<lambda>x. Inr (state\<lparr>final_answer := x\<rparr>))
        else Inr state)"

fun apply_update :: "AgentState \<Rightarrow> dict \<Rightarrow> error + AgentState" where
  "apply_update state [] = Inr state"
| "apply_update state (kv # rest) =
     (case set_field state kv of
        Inl e \<Rightarrow> Inl e
      | Inr state' \<Rightarrow> apply_update state' rest)"

text \<open>
  A run: the nodes entered so far, and the exception that ended the run or the state
  reached.
\<close>

type_synonym run = "stage list \<times> (error + AgentState)"

definition run_node :: "stage \<Rightarrow> (AgentState \<Rightarrow> error + dict) \<Rightarrow> run \<Rightarrow> run" where
  "run_node name node r =
     (case r of
        (trace, Inl e) \<Rightarrow> (trace, Inl e)
      | (trace, Inr state) \<Rightarrow> (trace @ [name], and_then (node state) (apply_update state)))"

definition invoke :: "world \<Rightarrow> client \<Rightarrow> dict list \<Rightarrow> AgentState \<Rightarrow> run" where
  "invoke w client formatting_examples initial_state =
     run_node Create_final (\<lambda>state. create_final_answer w state (Some client))
       (run_node Improve_formatting
          (\<lambda>state. improve_formatting w state formatting_examples (Some client))
          (run_node Check_adequacy (\<lambda>state. check_adequacy w state (Some client))
             (run_node Fix_grammar (\<lambda>state. fix_grammar w state (Some client))
                ([], Inr initial_state))))"

text \<open>Lines 231--254: the client is made once, before the graph is built.\<close>

definition build_answer_quality_graph ::
    "world \<Rightarrow> dict list \<Rightarrow> error + (AgentState \<Rightarrow> run)" where
  "build_answer_quality_graph w formatting_examples =
     and_then (get_claude_client w None) (\<lambda>client.
     Inr (invoke w client formatting_examples))"

text \<open>
  \<^verbatim>\<open>load_formatting_examples_from_csv\<close> is declared with no parameter (line 23). A call
  passes a list of positional arguments; one that is not empty raises \<^verbatim>\<open>TypeError\<close>
  before the body runs.
\<close>

definition load_formatting_examples_from_csv :: "world \<Rightarrow> pyval list \<Rightarrow> error + dict list" where
  "load_formatting_examples_from_csv w args =
     (if args = [] then csv_examples w
      else Inl (TypeError
        (''load_formatting_examples_from_csv() takes 0 positional arguments but '' @
         str_nat (length args) @
         (if length args = 1 then '' was given'' else '' were given''))))"

definition opt_dict :: "dict option \<Rightarrow> pyval" where
  "opt_dict x = (case x of None \<Rightarrow> PNone | Some d \<Rightarrow> PDict d)"

text \<open>Lines 286--294: the dictionary that \<^verbatim>\<open>process_answer\<close> returns.\<close>

definition answer_report :: "string \<Rightarrow> AgentState \<Rightarrow> dict" where
  "answer_report answer result =
     [(''original_answer'', PStr answer),
      (''final_answer'', opt_str (final_answer result)),
      (''analysis'', PDict
         [(''grammar_fixed'',
             PBool (if truthy (opt_str (grammar_fixed_answer result))
                    then opt_str (grammar_fixed_answer result) \<noteq> PStr answer
                    else False)),
          (''adequacy_assessment'', opt_dict (adequacy_assessment result)),
          (''format_assessment'', opt_dict (format_assessment result))])]"

text \<open>
  Lines 257--294. The result pairs the nodes that were entered with the exception raised
  or the dictionary returned.
\<close>

definition process_answer ::
    "world \<Rightarrow> string \<Rightarrow> string \<Rightarrow> dict list option \<Rightarrow> string option
      \<Rightarrow> stage list \<times> (error + dict)" where
  "process_answer w query answer formatting_examples csv_path =
     (case (case formatting_examples of
              Some examples \<Rightarrow> Inr examples
            | None \<Rightarrow>
                (case csv_path of
                   None \<Rightarrow> Inl (ValueError
                     ''Either formatting_examples or csv_path must be provided'')
                 | Some path \<Rightarrow> load_formatting_examples_from_csv w [PStr path])) of
        Inl e \<Rightarrow> ([], Inl e)
      | Inr examples \<Rightarrow>
          (let initial_state =
                 \<lparr>user_query = query, proposed_answer = answer,
                  grammar_fixed_answer = None, adequacy_assessment = None,
                  format_assessment = None, final_answer = None\<rparr>
           in case build_answer_quality_graph w examples of
                Inl e \<Rightarrow> ([], Inl e)
              | Inr graph \<Rightarrow>
                  (case graph initial_state of
                     (trace, Inl e) \<Rightarrow> (trace, Inl e)
                   | (trace, Inr result) \<Rightarrow> (trace, Inr (answer_report answer result)))))"

section \<open>Definitions for the statements and their instances\<close>

text \<open>
  A client that fails on every request, and surroundings with no key in the environment,
  a decoder that finds no text to be JSON and no example file.
\<close>

definition silent_client :: client where
  "silent_client r = Inl ''connection refused''"

definition bare_world :: world where
  "bare_world =
     \<lparr>environ_api_key = None, anthropic = (\<lambda>k. silent_client),
      json_loads = (\<lambda>s. JSONDecodeError), str_of = (\<lambda>v. []), csv_examples = Inr []\<rparr>"

text \<open>
  The first exception of a list of results, or all their values. \<open>numbered_blocks\<close> gives
  the text of every example with its position in the list, counted from 0.
\<close>

fun collect :: "(error + 'a) list \<Rightarrow> error + 'a list" where
  "collect [] = Inr []"
| "collect (x # xs) =
     (case x of
        Inl e \<Rightarrow> Inl e
      | Inr v \<Rightarrow> (case collect xs of Inl e \<Rightarrow> Inl e | Inr vs \<Rightarrow> Inr (v # vs)))"

definition numbered_blocks :: "world \<Rightarrow> dict list \<Rightarrow> (error + string) list" where
  "numbered_blocks w examples =
     map (\<lambda>(i, example). example_block w i example) (enumerate 0 examples)"

text \<open>Eight formatting examples with the four keys that the loader gives each example.\<close>

definition numbered_example :: "string \<Rightarrow> dict" where
  "numbered_example n =
     [(''task'', PStr (''task '' @ n)), (''bad_format'', PStr (''bad '' @ n)),
      (''good_format'', PStr (''good '' @ n)), (''explanation'', PStr (''why '' @ n))]"

definition eight_examples :: "dict list" where
  "eight_examples =
     map numbered_example [''a'', ''b'', ''c'', ''d'', ''e'', ''f'', ''g'', ''h'']"

text \<open>The text that the loop builds from the first five of the eight examples.\<close>

definition five_blocks :: string where
  "five_blocks =
     ''\<newline>Example 1:\<newline>User Query: task a\<newline>Bad format: bad a\<newline>'' @
     ''Good format: good a\<newline>Changes made: why a\<newline>'' @
     ''\<newline>Example 2:\<newline>User Query: task b\<newline>Bad format: bad b\<newline>'' @
     ''Good format: good b\<newline>Changes made: why b\<newline>'' @
     ''\<newline>Example 3:\<newline>User Query: task c\<newline>Bad format: bad c\<newline>'' @
     ''Good format: good c\<newline>Changes made: why c\<newline>'' @
     ''\<newline>Example 4:\<newline>User Query: task d\<newline>Bad format: bad d\<newline>'' @
     ''Good format: good d\<newline>Changes made: why d\<newline>'' @
     ''\<newline>Example 5:\<newline>User Query: task e\<newline>Bad format: bad e\<newline>'' @
     ''Good format: good e\<newline>Changes made: why e\<newline>''"

text \<open>
  The text before and after the leftmost occurrence of a separator, and the text that the
  extraction selects, written with them.
\<close>

definition text_before :: "string \<Rightarrow> string \<Rightarrow> string" where
  "text_before sep s = (case find_sep sep s of None \<Rightarrow> s | Some (a, b) \<Rightarrow> a)"

definition text_after :: "string \<Rightarrow> string \<Rightarrow> string" where
  "text_after sep s = (case find_sep sep s of None \<Rightarrow> [] | Some (a, b) \<Rightarrow> b)"

definition selected_content :: "string \<Rightarrow> string" where
  "selected_content t =
     py_strip
       (if sublist ''```json'' t
        then text_before ''```'' (text_before ''```json'' (text_after ''```json'' t))
        else if sublist ''```'' t
        then text_before ''```'' (text_after ''```'' t)
        else t)"

text \<open>
  Model responses: an assessment in a fenced block labelled \<^verbatim>\<open>json\<close>, a bare JSON object
  whose answer holds a fence, a bare assessment of the formatting, and an assessment
  whose \<^verbatim>\<open>adequately_addressed\<close> is \<^verbatim>\<open>null\<close>.
\<close>

definition adequacy_document :: string where
  \<open>adequacy_document =
     ''{"adequately_addressed": false, "missing_aspects": ["where the link is"], '' @
     ''"suggestions": ["Say where the link is"], '' @
     ''"improved_answer": "Go to Settings, open Security, then click the reset password link."}''\<close>

definition fenced_reply :: string where
  "fenced_reply =
     ''Here is my evaluation:\<newline>```json\<newline>'' @ adequacy_document @
     ''\<newline>```\<newline>Done.''"

definition fence_in_answer :: string where
  \<open>fence_in_answer = ''{"improved_answer": "```json"}''\<close>

definition format_document :: string where
  \<open>format_document =
     ''{"formatting_issues": ["one long sentence"], "improvements_made": ["numbered steps"], '' @
     ''"improved_answer": "1. Go to Settings. 2. Open Security. 3. Click the reset password link."}''\<close>

definition null_document :: string where
  \<open>null_document =
     ''{"adequately_addressed": null, "missing_aspects": [], '' @
     ''"suggestions": ["Say where the link is"], '' @
     ''"improved_answer": "Go to Settings, open Security, then click the reset password link."}''\<close>

definition null_assessment :: dict where
  "null_assessment =
     [(''adequately_addressed'', PNone),
      (''missing_aspects'', PList []),
      (''suggestions'', PList [PStr ''Say where the link is'']),
      (''improved_answer'',
         PStr ''Go to Settings, open Security, then click the reset password link.'')]"

text \<open>
  A decoder that gives what \<^verbatim>\<open>json.loads\<close> gives for the four documents above and
  raises \<^verbatim>\<open>json.JSONDecodeError\<close> on every other text; the texts it is applied to below
  are these documents and texts that are not JSON.
\<close>

definition known_documents :: "(string \<times> pyval) list" where
  "known_documents =
     [(adequacy_document, PDict
         [(''adequately_addressed'', PBool False),
          (''missing_aspects'', PList [PStr ''where the link is'']),
          (''suggestions'', PList [PStr ''Say where the link is'']),
          (''improved_answer'',
             PStr ''Go to Settings, open Security, then click the reset password link.'')]),
      (fence_in_answer, PDict [(''improved_answer'', PStr ''```json'')]),
      (format_document, PDict
         [(''formatting_issues'', PList [PStr ''one long sentence'']),
          (''improvements_made'', PList [PStr ''numbered steps'']),
          (''improved_answer'',
             PStr ''1. Go to Settings. 2. Open Security. 3. Click the reset password link.'')]),
      (null_document, PDict null_assessment)]"

text \<open>
  A text of 996 opening brackets, on which \<^verbatim>\<open>json.loads\<close> raises \<^verbatim>\<open>RecursionError\<close> under
  the default recursion limit, a decoder that does so and raises \<^verbatim>\<open>json.JSONDecodeError\<close>
  on every other text, and a client that answers every request with that text.
\<close>

definition deep_nesting :: string where
  "deep_nesting = replicate 996 (CHR ''['')"

definition nesting_decoder :: decoder where
  "nesting_decoder s =
     (if s = deep_nesting then LoadsRaised ''RecursionError'' else JSONDecodeError)"

definition nesting_client :: client where
  "nesting_client r = Inr deep_nesting"

definition table_decoder :: decoder where
  "table_decoder s =
     (case map_of known_documents s of None \<Rightarrow> JSONDecodeError | Some v \<Rightarrow> Loaded v)"

text \<open>
  What a stage returns under a key, and under a key of its \<^verbatim>\<open>changes_summary\<close>; the field
  \<^verbatim>\<open>improved_answer\<close> of an assessment, the empty string when the assessment or the field
  is absent.
\<close>

definition returned_field :: "error + dict \<Rightarrow> string \<Rightarrow> pyval option" where
  "returned_field returned k =
     (case returned of Inl e \<Rightarrow> None | Inr update \<Rightarrow> map_of update k)"

definition summary_field :: "error + dict \<Rightarrow> string \<Rightarrow> pyval option" where
  "summary_field returned k =
     (case returned_field returned ''changes_summary'' of
        Some (PDict summary) \<Rightarrow> map_of summary k
      | _ \<Rightarrow> None)"


text \<open>
  The first non-empty one of the grammar-fixed answer and the proposed answer, the
  proposed answer when neither is.
\<close>

definition nonempty_grammar_fixed_or_proposed :: "AgentState \<Rightarrow> string" where
  "nonempty_grammar_fixed_or_proposed state =
     (case grammar_fixed_answer state of
        None \<Rightarrow> proposed_answer state
      | Some g \<Rightarrow> if g = [] then proposed_answer state else g)"

text \<open>
  States of one request. In \<open>empty_grammar_state\<close> the grammar stage has returned the
  empty text; in \<open>empty_answers_state\<close> the two assessments have been decoded as well,
  each with an empty \<^verbatim>\<open>improved_answer\<close>; \<open>reviewed_state\<close> is the state after three
  stages that each changed the answer.
\<close>

definition empty_grammar_state :: AgentState where
  "empty_grammar_state =
     \<lparr>user_query = ''How do I reset my password?'',
      proposed_answer = ''go to setting then click reste pasword link'',
      grammar_fixed_answer = Some [], adequacy_assessment = None,
      format_assessment = None, final_answer = None\<rparr>"

definition empty_answers_state :: AgentState where
  "empty_answers_state =
     empty_grammar_state
       \<lparr>adequacy_assessment := Some
          [(''adequately_addressed'', PBool True), (''missing_aspects'', PList []),
           (''suggestions'', PList []), (''improved_answer'', PStr [])],
        format_assessment := Some
          [(''formatting_issues'', PList []), (''improvements_made'', PList []),
           (''improved_answer'', PStr [])]\<rparr>"

definition reviewed_state :: AgentState where
  "reviewed_state =
     \<lparr>user_query = ''How do I reset my password?'',
      proposed_answer = ''go to setting then click reste pasword link'',
      grammar_fixed_answer = Some ''Go to Settings, then click the reset password link.'',
      adequacy_assessment = Some
        [(''adequately_addressed'', PBool False),
         (''missing_aspects'', PList [PStr ''where the link is'']),
         (''suggestions'', PList [PStr ''Say where the link is'']),
         (''improved_answer'',
            PStr ''Go to Settings, open Security, then click the reset password link.'')],
      format_assessment = Some
        [(''formatting_issues'', PList [PStr ''one long sentence'']),
         (''improvements_made'', PList [PStr ''numbered steps'']),
         (''improved_answer'',
            PStr ''1. Go to Settings. 2. Open Security. 3. Click the reset password link.'')],
      final_answer = None\<rparr>"

text \<open>
  A client that answers every request with a sentence that is not JSON, and one that
  answers with the assessment whose \<^verbatim>\<open>adequately_addressed\<close> is \<^verbatim>\<open>null\<close>.
\<close>

definition refusing_client :: client where
  "refusing_client r = Inr ''I cannot help with that.''"

definition null_client :: client where
  "null_client r = Inr null_document"

text \<open>
  The record that stands for an assessment that could not be decoded, with the first
  non-empty one of the grammar-fixed and the proposed answer as its improved answer.
\<close>

definition adequacy_sentinel :: "AgentState \<Rightarrow> dict" where
  "adequacy_sentinel state =
     [(''adequately_addressed'', PBool False),
      (''missing_aspects'', PList [PStr ''Unable to parse assessment'']),
      (''suggestions'', PList [PStr ''Error processing assessment'']),
      (''improved_answer'', PStr (nonempty_grammar_fixed_or_proposed state))]"

text \<open>
  The state of the request after a grammar stage that changed the answer, and that state
  with the assessment whose \<^verbatim>\<open>adequately_addressed\<close> is \<^verbatim>\<open>null\<close>.
\<close>

definition grammar_fixed_state :: AgentState where
  "grammar_fixed_state =
     \<lparr>user_query = ''How do I reset my password?'',
      proposed_answer = ''go to setting then click reste pasword link'',
      grammar_fixed_answer = Some ''Go to Settings, then click the reset password link.'',
      adequacy_assessment = None, format_assessment = None, final_answer = None\<rparr>"

definition null_addressed_state :: AgentState where
  "null_addressed_state = grammar_fixed_state\<lparr>adequacy_assessment := Some null_assessment\<rparr>"

text \<open>
  The exceptions that a run of the graph can end with: those of the client, of a
  formatting example that lacks a key, of a value that does not fit its field, and those
  of the decoder that are not caught.
\<close>

definition stage_error :: "error \<Rightarrow> bool" where
  "stage_error e =
     (case e of
        ServiceError m \<Rightarrow> True
      | KeyError k \<Rightarrow> True
      | ValidationError k \<Rightarrow> True
      | DecoderError name \<Rightarrow> True
      | _ \<Rightarrow> False)"

text \<open>
  A client that answers each of the three requests by its system instruction, and
  surroundings with that client, a key in the environment and the decoder of the known
  documents.
\<close>

definition scripted_client :: client where
  "scripted_client r =
     (if system r = grammar_system
      then Inr ''Go to Settings, then click the reset password link.''
      else if system r = adequacy_system then Inr fenced_reply
      else if system r = formatting_system then Inr format_document
      else Inl ''unexpected request'')"

definition scripted_world :: world where
  "scripted_world =
     \<lparr>environ_api_key = Some ''test-key'', anthropic = (\<lambda>k. scripted_client),
      json_loads = table_decoder, str_of = (\<lambda>v. []), csv_examples = Inr []\<rparr>"

section \<open>Properties of the helper operations\<close>

declare split_parts.simps [simp del]
declare str_nat.simps [simp del]

lemma str_nat_digits:
  "str_nat 1 = ''1''" "str_nat 2 = ''2''" "str_nat 3 = ''3''" "str_nat 4 = ''4''"
  "str_nat 5 = ''5''" "str_nat (Suc 0) = ''1''"
  by code_simp+

lemma ensure_client_Some: "ensure_client w (Some c) = Inr c"
  by (simp add: ensure_client_def)

lemma find_sep_None_iff: "find_sep sep s = None \<longleftrightarrow> \<not> sublist sep s"
  by (induction s) (auto simp: sublist_Cons_right split: option.splits)

lemma find_sep_decomp:
  "find_sep sep s = Some (a, b) \<Longrightarrow> s = a @ sep @ b"
proof (induction s arbitrary: a b)
  case Nil
  then show ?case by (simp split: if_splits)
next
  case (Cons c cs)
  show ?case
  proof (cases "prefix sep (c # cs)")
    case True
    with Cons.prems show ?thesis by (auto simp: prefix_def)
  next
    case False
    with Cons.prems obtain a' where "find_sep sep cs = Some (a', b)" "a = c # a'"
      by (auto split: option.splits)
    with Cons.IH show ?thesis by simp
  qed
qed

lemma find_sep_leftmost:
  "find_sep sep s = Some (a, b) \<Longrightarrow> sep \<noteq> [] \<Longrightarrow> \<not> sublist sep (a @ butlast sep)"
proof (induction s arbitrary: a b)
  case Nil
  then show ?case by simp
next
  case (Cons c cs)
  show ?case
  proof (cases "prefix sep (c # cs)")
    case True
    with Cons.prems have "a = []" by simp
    moreover have "\<not> sublist sep (butlast sep)"
      using Cons.prems(2) sublist_length_le [of sep "butlast sep"] by (cases sep) auto
    ultimately show ?thesis by simp
  next
    case False
    with Cons.prems obtain a' where a': "find_sep sep cs = Some (a', b)" "a = c # a'"
      by (auto split: option.splits)
    have cs: "cs = a' @ sep @ b" using a'(1) by (rule find_sep_decomp)
    have "\<not> sublist sep (a' @ butlast sep)" using Cons.IH a'(1) Cons.prems(2) by blast
    moreover have "\<not> prefix sep (c # a' @ butlast sep)"
    proof
      assume "prefix sep (c # a' @ butlast sep)"
      moreover have "prefix (c # a' @ butlast sep) (c # cs)"
        using cs Cons.prems(2)
        by (metis append_butlast_last_id append_assoc prefix_def prefix_code(3)
            same_prefix_prefix Cons_prefix_Cons)
      ultimately show False using False by (meson prefix_order.trans)
    qed
    ultimately show ?thesis using a'(2) by (simp add: sublist_Cons_right)
  qed
qed

lemma find_sep_before_has_none:
  assumes "find_sep sep s = Some (a, b)" and "sep \<noteq> []"
  shows "find_sep sep a = None"
proof -
  have "sublist sep (a @ butlast sep)" if "sublist sep a"
    using that by (metis append_assoc sublist_def)
  with find_sep_leftmost [OF assms] show ?thesis by (auto simp: find_sep_None_iff)
qed

lemma hd_split_parts: "sep \<noteq> [] \<Longrightarrow> hd (split_parts sep s) = text_before sep s"
  by (subst split_parts.simps) (simp add: text_before_def split: option.splits)

lemma split_parts_nonempty: "split_parts sep s \<noteq> []"
  by (subst split_parts.simps) (simp split: option.splits)

lemma nth_split_parts_0: "sep \<noteq> [] \<Longrightarrow> split_parts sep s ! 0 = text_before sep s"
  using hd_split_parts [of sep s] split_parts_nonempty [of sep s] by (simp add: hd_conv_nth)

lemma fenced_eq:
  assumes "opener \<noteq> []"
  shows "fenced t opener =
    (case find_sep opener t of
       None \<Rightarrow> Inl IndexError
     | Some (a, rest) \<Rightarrow> Inr (py_strip (text_before ''```'' (text_before opener rest))))"
proof (cases "find_sep opener t")
  case None
  then have "split_parts opener t = [t]"
    using assms by (subst split_parts.simps) simp
  with None assms show ?thesis
    by (simp add: fenced_def py_split_def and_then_def py_index_def)
next
  case (Some ab)
  obtain a rest where ab: "ab = (a, rest)" by (cases ab)
  have parts: "split_parts opener t = a # split_parts opener rest"
    using Some ab assms by (subst split_parts.simps) simp
  have one: "py_index (split_parts opener t) 1 = Inr (text_before opener rest)"
    using parts split_parts_nonempty [where sep = opener and s = rest]
      nth_split_parts_0 [OF assms, where s = rest]
    by (cases "split_parts opener rest") (auto simp: py_index_def)
  have zero: "py_index (split_parts ''```'' body) 0 = Inr (text_before ''```'' body)" for body
    using split_parts_nonempty [of "''```''" body] nth_split_parts_0 [of "''```''" body]
    by (auto simp: py_index_def)
  show ?thesis
    using Some ab assms one zero
    by (simp add: fenced_def py_split_def and_then_def)
qed

lemma text_before_idem:
  "sep \<noteq> [] \<Longrightarrow> text_before sep (text_before sep s) = text_before sep s"
  by (auto simp: text_before_def find_sep_before_has_none split: option.splits)

lemma extract_selected: "extract_json_content t = Inr (selected_content t)"
  by (auto simp: extract_json_content_def selected_content_def fenced_eq text_before_idem
        text_after_def find_sep_None_iff [symmetric] split: option.splits)

lemma parse_response_selected:
  "parse_response loads t fallback =
     (case loads (selected_content t) of
        Loaded v \<Rightarrow> Inr v
      | JSONDecodeError \<Rightarrow> Inr fallback
      | LoadsRaised name \<Rightarrow> Inl (DecoderError name))"
  by (simp add: parse_response_def extract_selected and_then_def)

lemma grammar_fixed_or_proposed_eq:
  "grammar_fixed_or_proposed state = PStr (nonempty_grammar_fixed_or_proposed state)"
  by (simp add: grammar_fixed_or_proposed_def nonempty_grammar_fixed_or_proposed_def py_or_def
      opt_str_def split: option.splits)


lemma create_final_answer_Some:
  "create_final_answer w state (Some c) =
     Inr [(''final_answer'', formatted_answer state),
          (''changes_summary'', changes_summary state)]"
  by (simp add: create_final_answer_def ensure_client_Some and_then_def)

lemma fix_grammar_error:
  "fix_grammar w state (Some c) = Inl e \<Longrightarrow> stage_error e"
  by (auto simp: fix_grammar_def ensure_client_Some create_message_def and_then_def
      stage_error_def split: sum.splits)

lemma check_adequacy_error:
  "check_adequacy w state (Some c) = Inl e \<Longrightarrow> stage_error e"
  by (auto simp: check_adequacy_def ensure_client_Some create_message_def and_then_def
      parse_response_selected stage_error_def split: sum.splits loads_result.splits)

lemma example_block_error: "example_block w i example = Inl e \<Longrightarrow> stage_error e"
  by (auto simp: example_block_def dict_item_def and_then_def stage_error_def
      split: sum.splits option.splits)

lemma examples_loop_error: "examples_loop w ys acc = Inl e \<Longrightarrow> stage_error e"
proof (induction w ys acc rule: examples_loop.induct)
  case (1 w examples_text)
  then show ?case by simp
next
  case (2 w i example rest examples_text)
  then show ?case
    by (auto split: sum.splits dest: example_block_error)
qed

lemma improve_formatting_error:
  "improve_formatting w state xs (Some c) = Inl e \<Longrightarrow> stage_error e"
  by (auto simp: improve_formatting_def formatting_request_def examples_text_def
      ensure_client_Some create_message_def and_then_def parse_response_selected
      stage_error_def split: sum.splits loads_result.splits dest: examples_loop_error)

lemma set_field_error: "set_field state kv = Inl e \<Longrightarrow> stage_error e"
  by (cases kv)
    (auto simp: set_field_def as_str_def as_optional_str_def as_optional_dict_def
      and_then_def stage_error_def split: if_splits pyval.splits sum.splits)

lemma apply_update_error: "apply_update state u = Inl e \<Longrightarrow> stage_error e"
  by (induction u arbitrary: state) (auto split: sum.splits dest: set_field_error)

lemma run_node_error:
  assumes "\<And>state e. node state = Inl e \<Longrightarrow> stage_error e"
    and "\<And>e. snd r = Inl e \<Longrightarrow> stage_error e"
    and "snd (run_node name node r) = Inl e"
  shows "stage_error e"
proof (cases r)
  case (Pair trace outcome)
  show ?thesis
  proof (cases outcome)
    case (Inl e')
    with Pair assms(2,3) show ?thesis by (simp add: run_node_def)
  next
    case (Inr state)
    with Pair assms(3) have "and_then (node state) (apply_update state) = Inl e"
      by (simp add: run_node_def)
    then show ?thesis
      using assms(1) [of state] apply_update_error
      by (auto simp: and_then_def split: sum.splits)
  qed
qed

lemma invoke_error:
  assumes "snd (invoke w c xs s0) = Inl e"
  shows "stage_error e"
proof -
  have final: "create_final_answer w state (Some c) = Inl e' \<Longrightarrow> stage_error e'" for state e'
    by (simp add: create_final_answer_Some)
  show ?thesis
    using assms unfolding invoke_def
    by (rule run_node_error [rotated 2])
      (erule final improve_formatting_error check_adequacy_error fix_grammar_error
        run_node_error [rotated 2] | simp)+
qed

lemma invoke_success_trace:
  assumes "invoke w c xs s0 = (trace, Inr state)"
  shows "trace = [Fix_grammar, Check_adequacy, Improve_formatting, Create_final]"
  using assms
  by (auto simp: invoke_def run_node_def and_then_def split: prod.splits sum.splits)

section \<open>The example source path (C10)\<close>

text \<open>
  C10. When no example sequence is passed and a path is, \<^verbatim>\<open>process_answer\<close> passes the
  path to \<^verbatim>\<open>load_formatting_examples_from_csv\<close>, which takes no argument: for every
  query, answer, path and surroundings the call raises \<^verbatim>\<open>TypeError\<close> and no node of the
  graph is entered, so this route never gives a result.
\<close>

theorem csv_path_route_always_fails:
  "process_answer w query answer None (Some path) =
     ([], Inl (TypeError
        ''load_formatting_examples_from_csv() takes 0 positional arguments but 1 was given''))"
  by (simp add: process_answer_def load_formatting_examples_from_csv_def str_nat_digits)

theorem csv_path_route_always_fails_witness:
  "process_answer bare_world ''How do I reset my password?''
     ''go to setting then click reste pasword link'' None
     (Some ''faff_formatting_examples.csv'') =
     ([], Inl (TypeError
        ''load_formatting_examples_from_csv() takes 0 positional arguments but 1 was given''))"
  using csv_path_route_always_fails [of bare_world "''How do I reset my password?''"
     "''go to setting then click reste pasword link''" "''faff_formatting_examples.csv''"]
  by simp

section \<open>The change summary: \<^verbatim>\<open>grammar_changed\<close> (C3)\<close>

text \<open>
  C3, as amended. For every state that enters the final stage, the field
  \<^verbatim>\<open>grammar_changed\<close> of the \<^verbatim>\<open>changes_summary\<close> that the stage returns is true if and
  only if \<^verbatim>\<open>grammar_fixed_answer\<close> is present, is not the empty string and differs from
  \<^verbatim>\<open>proposed_answer\<close>; it is false when \<^verbatim>\<open>grammar_fixed_answer\<close> is absent, empty or equal
  to \<^verbatim>\<open>proposed_answer\<close>.
\<close>

theorem grammar_changed_iff_nonempty_and_different:
  "summary_field (create_final_answer w state (Some c)) ''grammar_changed'' =
     Some (PBool (case grammar_fixed_answer state of
                    None \<Rightarrow> False
                  | Some g \<Rightarrow> g \<noteq> [] \<and> g \<noteq> proposed_answer state))"
  by (simp add: create_final_answer_Some summary_field_def returned_field_def
      changes_summary_def grammar_changed_def opt_str_def split: option.splits)

theorem grammar_changed_iff_nonempty_and_different_witness:
  "summary_field (create_final_answer bare_world reviewed_state (Some silent_client))
     ''grammar_changed'' = Some (PBool True)"
  using grammar_changed_iff_nonempty_and_different [of bare_world reviewed_state silent_client]
  by (simp add: reviewed_state_def)

text \<open>
  C3 as stated fails where the grammar stage returned the empty text: the grammar-fixed
  answer is present and differs from the proposed answer, and \<^verbatim>\<open>grammar_changed\<close> is false.
\<close>

theorem grammar_changed_counterexample:
  "grammar_fixed_answer empty_answers_state = Some []
   \<and> grammar_fixed_answer empty_answers_state \<noteq> Some (proposed_answer empty_answers_state)
   \<and> summary_field (create_final_answer bare_world empty_answers_state (Some silent_client))
        ''grammar_changed'' = Some (PBool False)"
  by (simp add: create_final_answer_Some summary_field_def returned_field_def
      changes_summary_def grammar_changed_def opt_str_def empty_answers_state_def
      empty_grammar_state_def)

section \<open>The final answer (C6)\<close>




section \<open>The current answer of the formatting stage (C5)\<close>




section \<open>The configuration errors of \<^verbatim>\<open>process_answer\<close> (C9)\<close>

text \<open>
  C9, as amended. \<^verbatim>\<open>process_answer\<close> fails with the configuration error for a missing
  example source (\<^verbatim>\<open>ValueError\<close>, "Either formatting_examples or csv_path must be
  provided") exactly when neither an example sequence nor a path is passed, and then no
  node of the graph has been entered.
\<close>

theorem missing_examples_error_iff_neither_supplied:
  "(snd (process_answer w query answer formatting_examples csv_path) =
      Inl (ValueError ''Either formatting_examples or csv_path must be provided'')) =
     (formatting_examples = None \<and> csv_path = None)
   \<and> process_answer w query answer None None =
       ([], Inl (ValueError ''Either formatting_examples or csv_path must be provided''))"
proof -
  let ?msg = "''Either formatting_examples or csv_path must be provided''"
  have neither: "process_answer w query answer None None = ([], Inl (ValueError ?msg))"
    by (simp add: process_answer_def)
  have path: "snd (process_answer w query answer None (Some p)) \<noteq> Inl (ValueError ?msg)" for p
    by (simp add: process_answer_def load_formatting_examples_from_csv_def)
  have examples: "snd (process_answer w query answer (Some xs) csv_path) \<noteq>
      Inl (ValueError ?msg)" for xs
  proof
    assume failed: "snd (process_answer w query answer (Some xs) csv_path) =
      Inl (ValueError ?msg)"
    show False
    proof (cases "get_claude_client w None")
      case (Inl e)
      then have "e = ValueError
          ''API key must be provided or set as ANTHROPIC_API_KEY environment variable''"
        by (auto simp: get_claude_client_def Let_def split: if_splits option.splits)
      with Inl failed show False
        by (simp add: process_answer_def build_answer_quality_graph_def and_then_def)
    next
      case (Inr c)
      let ?s0 = "\<lparr>user_query = query, proposed_answer = answer,
                  grammar_fixed_answer = None, adequacy_assessment = None,
                  format_assessment = None, final_answer = None\<rparr>"
      from Inr failed have "snd (invoke w c xs ?s0) = Inl (ValueError ?msg)"
        by (auto simp: process_answer_def build_answer_quality_graph_def and_then_def
            split: prod.splits sum.splits)
      then have "stage_error (ValueError ?msg)" by (rule invoke_error)
      then show False by (simp add: stage_error_def)
    qed
  qed
  have "(snd (process_answer w query answer formatting_examples csv_path) =
      Inl (ValueError ?msg)) = (formatting_examples = None \<and> csv_path = None)"
  proof (cases formatting_examples)
    case None
    then show ?thesis using neither path by (cases csv_path) auto
  next
    case (Some xs)
    then show ?thesis using examples by simp
  qed
  with neither show ?thesis by simp
qed

theorem missing_examples_error_iff_neither_supplied_witness:
  "process_answer scripted_world ''How do I reset my password?''
     ''go to setting then click reste pasword link'' None None =
     ([], Inl (ValueError ''Either formatting_examples or csv_path must be provided''))
   \<and> snd (process_answer scripted_world ''How do I reset my password?''
     ''go to setting then click reste pasword link'' (Some eight_examples) None) \<noteq>
     Inl (ValueError ''Either formatting_examples or csv_path must be provided'')"
  using missing_examples_error_iff_neither_supplied [of scripted_world
      "''How do I reset my password?''" "''go to setting then click reste pasword link''"
      None None]
    missing_examples_error_iff_neither_supplied [of scripted_world
      "''How do I reset my password?''" "''go to setting then click reste pasword link''"
      "Some eight_examples" None]
  by simp

text \<open>
  C9 as stated fails: with an example sequence passed and no API key passed or set in
  the environment, \<^verbatim>\<open>process_answer\<close> fails with a configuration error before any node
  is entered (the \<^verbatim>\<open>ValueError\<close> of \<^verbatim>\<open>get_claude_client\<close> for the missing credential).
\<close>

theorem configuration_error_with_examples_counterexample:
  "process_answer bare_world ''How do I reset my password?''
     ''go to setting then click reste pasword link'' (Some eight_examples) None =
     ([], Inl (ValueError
        ''API key must be provided or set as ANTHROPIC_API_KEY environment variable''))"
  by (simp add: process_answer_def build_answer_quality_graph_def get_claude_client_def
      and_then_def bare_world_def opt_str_def)

section \<open>The result of a run (C4)\<close>

text \<open>
  C4. A call of \<^verbatim>\<open>process_answer\<close> ends with an exception or with a report, and a
  report is returned only after all four nodes have run. The report holds the original
  answer, the final answer and the analysis, and no \<^verbatim>\<open>changes_summary\<close>: the final stage
  returns one (lines 222--228), but \<^verbatim>\<open>AgentState\<close> declares no field for it, so the state
  after the stage is the state with its final answer set and nothing else.
\<close>

theorem report_after_four_stages_without_summary:
  "(case process_answer w query answer formatting_examples csv_path of
      (trace, Inl e) \<Rightarrow> True
    | (trace, Inr report) \<Rightarrow>
        trace = [Fix_grammar, Check_adequacy, Improve_formatting, Create_final]
        \<and> map fst report = [''original_answer'', ''final_answer'', ''analysis'']
        \<and> map_of report ''changes_summary'' = None)
   \<and> apply_update state [(''final_answer'', PStr f), (''changes_summary'', summary)] =
       Inr (state\<lparr>final_answer := Some f\<rparr>)"
proof -
  have kept: "apply_update state [(''final_answer'', PStr f), (''changes_summary'', summary)] =
       Inr (state\<lparr>final_answer := Some f\<rparr>)"
    by (simp add: set_field_def as_optional_str_def and_then_def)
  have report: "trace = [Fix_grammar, Check_adequacy, Improve_formatting, Create_final]
        \<and> map fst report = [''original_answer'', ''final_answer'', ''analysis'']
        \<and> map_of report ''changes_summary'' = None"
    if "process_answer w query answer formatting_examples csv_path = (trace, Inr report)"
    for trace report
  proof -
    from that obtain c xs s0 result where
      run: "invoke w c xs s0 = (trace, Inr result)" and
      rep: "report = answer_report answer result"
      by (auto simp: process_answer_def build_answer_quality_graph_def and_then_def Let_def
          split: option.splits sum.splits prod.splits)
    from run have "trace = [Fix_grammar, Check_adequacy, Improve_formatting, Create_final]"
      by (rule invoke_success_trace)
    with rep show ?thesis by (simp add: answer_report_def)
  qed
  show ?thesis
    using kept report
    by (auto split: prod.splits sum.splits)
qed

text \<open>
  A run of the request of the end-to-end scenario in which every stage changes the
  answer: all four nodes are entered, and the report is the following.
\<close>

lemma scripted_run:
  "process_answer scripted_world ''How do I reset my password?''
     ''go to setting then click reste pasword link'' (Some []) None =
     ([Fix_grammar, Check_adequacy, Improve_formatting, Create_final],
      Inr [(''original_answer'', PStr ''go to setting then click reste pasword link''),
           (''final_answer'',
              PStr ''1. Go to Settings. 2. Open Security. 3. Click the reset password link.''),
           (''analysis'', PDict
              [(''grammar_fixed'', PBool True),
               (''adequacy_assessment'', PDict
                  [(''adequately_addressed'', PBool False),
                   (''missing_aspects'', PList [PStr ''where the link is'']),
                   (''suggestions'', PList [PStr ''Say where the link is'']),
                   (''improved_answer'',
                      PStr ''Go to Settings, open Security, then click the reset password link.'')]),
               (''format_assessment'', PDict
                  [(''formatting_issues'', PList [PStr ''one long sentence'']),
                   (''improvements_made'', PList [PStr ''numbered steps'']),
                   (''improved_answer'',
                      PStr ''1. Go to Settings. 2. Open Security. 3. Click the reset password link.'')])])])"
  by code_simp

theorem report_after_four_stages_without_summary_witness:
  "fst (process_answer scripted_world ''How do I reset my password?''
     ''go to setting then click reste pasword link'' (Some []) None) =
     [Fix_grammar, Check_adequacy, Improve_formatting, Create_final]
   \<and> (case snd (process_answer scripted_world ''How do I reset my password?''
          ''go to setting then click reste pasword link'' (Some []) None) of
        Inl e \<Rightarrow> False
      | Inr report \<Rightarrow>
          map fst report = [''original_answer'', ''final_answer'', ''analysis'']
          \<and> map_of report ''changes_summary'' = None
          \<and> map_of report ''final_answer'' = Some (PStr
               ''1. Go to Settings. 2. Open Security. 3. Click the reset password link.''))"
  using report_after_four_stages_without_summary [of scripted_world
      "''How do I reset my password?''" "''go to setting then click reste pasword link''"
      "Some []" None]
  by (simp add: scripted_run)

section \<open>The examples in the formatting prompt (C8)\<close>

lemma examples_loop_collect:
  "examples_loop w (enumerate n ys) acc =
     and_then (collect (map (\<lambda>(i, example). example_block w i example) (enumerate n ys)))
       (\<lambda>blocks. Inr (acc @ concat blocks))"
proof (induction ys arbitrary: n acc)
  case Nil
  then show ?case by (simp add: and_then_def)
next
  case (Cons y ys)
  show ?case
  proof (cases "example_block w n y")
    case (Inl e)
    then show ?thesis by (simp add: and_then_def)
  next
    case (Inr block)
    then show ?thesis
      using Cons.IH [of "Suc n" "acc @ block"]
      by (simp add: and_then_def split: sum.splits)
  qed
qed

lemma examples_text_take: "examples_text w (take 5 xs) = examples_text w xs"
  by (simp add: examples_text_def examples_to_use_def)

lemma sublist_behind: "sublist shown ys \<Longrightarrow> sublist shown (zs @ ys)"
  by (metis append_assoc sublist_def)

lemma examples_text_in_prompt: "sublist shown (formatting_prompt w state shown answer)"
  unfolding formatting_prompt_def
  by (rule sublist_behind, rule sublist_behind, rule sublist_behind,
      rule sublist_append_rightI)

text \<open>
  C8. For every sequence of loaded examples the formatting stage uses the first five in
  their order, all of them when there are fewer: of eight examples it uses the first
  five. An example with its four keys is rendered as the block "Example n:" with its
  query, bad format, good format and changes, where n is its position counted from 1;
  the text of the examples is the blocks of the first five, one after the other (or the
  \<^verbatim>\<open>KeyError\<close> of the first of them that lacks a key). That text is part of the prompt of
  the one message of the request, which the stage sends to the client; the request and
  the result of the stage are those for the first five examples alone, so a later
  example has no part in the prompt.
\<close>

theorem formatting_uses_first_five_examples:
  "examples_to_use xs = take 5 xs
   \<and> examples_to_use [e1, e2, e3, e4, e5, e6, e7, e8] = [e1, e2, e3, e4, e5]
   \<and> examples_text w xs =
       and_then (collect (numbered_blocks w (take 5 xs))) (\<lambda>blocks. Inr (concat blocks))
   \<and> (map_of example ''task'' = Some task \<and> map_of example ''bad_format'' = Some bad
        \<and> map_of example ''good_format'' = Some good
        \<and> map_of example ''explanation'' = Some why \<longrightarrow>
        example_block w i example =
          Inr (''\<newline>Example '' @ str_nat (i + 1) @ '':\<newline>'' @
               ''User Query: '' @ fstr w task @ ''\<newline>'' @
               ''Bad format: '' @ fstr w bad @ ''\<newline>'' @
               ''Good format: '' @ fstr w good @ ''\<newline>'' @
               ''Changes made: '' @ fstr w why @ ''\<newline>''))
   \<and> (examples_text w xs = Inr shown \<longrightarrow>
        formatting_request w state xs =
          Inr \<lparr>model = claude_model, max_tokens = 2048, temperature = 0,
               system = formatting_system,
               messages = [(''user'', formatting_prompt w state shown (current_answer state))]\<rparr>
        \<and> sublist shown (formatting_prompt w state shown (current_answer state))
        \<and> improve_formatting w state xs (Some c) =
            and_then (create_message c
               \<lparr>model = claude_model, max_tokens = 2048, temperature = 0,
                system = formatting_system,
                messages =
                  [(''user'', formatting_prompt w state shown (current_answer state))]\<rparr>)
              (\<lambda>response_text.
            and_then (parse_response (json_loads w) response_text
                        (format_fallback (current_answer state)))
              (\<lambda>format_assessment. Inr [(''format_assessment'', format_assessment)])))
   \<and> formatting_request w state xs = formatting_request w state (take 5 xs)
   \<and> improve_formatting w state xs client = improve_formatting w state (take 5 xs) client"
proof -
  have a: "examples_to_use xs = take 5 xs" by (simp add: examples_to_use_def)
  have b: "examples_to_use [e1, e2, e3, e4, e5, e6, e7, e8] = [e1, e2, e3, e4, e5]"
    by (simp add: examples_to_use_def)
  have c: "examples_text w xs =
       and_then (collect (numbered_blocks w (take 5 xs))) (\<lambda>blocks. Inr (concat blocks))"
    using examples_loop_collect [of w 0 "take 5 xs" "[]"]
    by (simp add: examples_text_def examples_to_use_def numbered_blocks_def)
  have rendered: "example_block w i example =
          Inr (''\<newline>Example '' @ str_nat (i + 1) @ '':\<newline>'' @
               ''User Query: '' @ fstr w task @ ''\<newline>'' @
               ''Bad format: '' @ fstr w bad @ ''\<newline>'' @
               ''Good format: '' @ fstr w good @ ''\<newline>'' @
               ''Changes made: '' @ fstr w why @ ''\<newline>'')"
    if "map_of example ''task'' = Some task" "map_of example ''bad_format'' = Some bad"
      "map_of example ''good_format'' = Some good" "map_of example ''explanation'' = Some why"
    using that by (simp add: example_block_def dict_item_def and_then_def)
  have asked: "formatting_request w state xs =
          Inr \<lparr>model = claude_model, max_tokens = 2048, temperature = 0,
               system = formatting_system,
               messages = [(''user'', formatting_prompt w state shown (current_answer state))]\<rparr>"
    if "examples_text w xs = Inr shown"
    using that by (simp add: formatting_request_def and_then_def)
  have passed: "improve_formatting w state xs (Some c) =
            and_then (create_message c
               \<lparr>model = claude_model, max_tokens = 2048, temperature = 0,
                system = formatting_system,
                messages =
                  [(''user'', formatting_prompt w state shown (current_answer state))]\<rparr>)
              (\<lambda>response_text.
            and_then (parse_response (json_loads w) response_text
                        (format_fallback (current_answer state)))
              (\<lambda>format_assessment. Inr [(''format_assessment'', format_assessment)]))"
    if "examples_text w xs = Inr shown"
    by (simp add: improve_formatting_def ensure_client_Some asked [OF that] and_then_def)
  have d: "formatting_request w state xs = formatting_request w state (take 5 xs)"
    by (simp add: formatting_request_def examples_text_take)
  have e: "improve_formatting w state xs client = improve_formatting w state (take 5 xs) client"
    by (simp add: improve_formatting_def d [symmetric])
  from a b c rendered asked passed d e
    examples_text_in_prompt [of shown w state "current_answer state"]
  show ?thesis by blast
qed

lemma eight_examples_text: "examples_text bare_world eight_examples = Inr five_blocks"
  by code_simp

lemma eight_examples_prompt:
  "sublist ''Example 5:\<newline>User Query: task e''
     (formatting_prompt bare_world reviewed_state five_blocks (current_answer reviewed_state))
   \<and> \<not> sublist ''Example 6''
     (formatting_prompt bare_world reviewed_state five_blocks (current_answer reviewed_state))
   \<and> \<not> sublist ''task f''
     (formatting_prompt bare_world reviewed_state five_blocks (current_answer reviewed_state))"
  by code_simp

theorem formatting_uses_first_five_examples_witness:
  "examples_to_use eight_examples = map numbered_example [''a'', ''b'', ''c'', ''d'', ''e'']
   \<and> example_block bare_world 0 (numbered_example ''a'') =
       Inr (''\<newline>Example 1:\<newline>User Query: task a\<newline>Bad format: bad a\<newline>'' @
            ''Good format: good a\<newline>Changes made: why a\<newline>'')
   \<and> examples_text bare_world eight_examples = Inr five_blocks
   \<and> formatting_request bare_world reviewed_state eight_examples =
       Inr \<lparr>model = claude_model, max_tokens = 2048, temperature = 0,
            system = formatting_system,
            messages = [(''user'',
              formatting_prompt bare_world reviewed_state five_blocks
                (current_answer reviewed_state))]\<rparr>
   \<and> sublist five_blocks
       (formatting_prompt bare_world reviewed_state five_blocks (current_answer reviewed_state))
   \<and> sublist ''Example 5:\<newline>User Query: task e''
       (formatting_prompt bare_world reviewed_state five_blocks (current_answer reviewed_state))
   \<and> \<not> sublist ''Example 6''
       (formatting_prompt bare_world reviewed_state five_blocks (current_answer reviewed_state))
   \<and> \<not> sublist ''task f''
       (formatting_prompt bare_world reviewed_state five_blocks (current_answer reviewed_state))"
proof -
  have t: "take 5 eight_examples = map numbered_example [''a'', ''b'', ''c'', ''d'', ''e'']"
    by (simp add: eight_examples_def)
  have keys: "map_of (numbered_example ''a'') ''task'' = Some (PStr ''task a'')
     \<and> map_of (numbered_example ''a'') ''bad_format'' = Some (PStr ''bad a'')
     \<and> map_of (numbered_example ''a'') ''good_format'' = Some (PStr ''good a'')
     \<and> map_of (numbered_example ''a'') ''explanation'' = Some (PStr ''why a'')"
    by (simp add: numbered_example_def)
  from formatting_uses_first_five_examples
    [where xs = eight_examples and w = bare_world and state = reviewed_state
       and example = "numbered_example ''a''" and task = "PStr ''task a''"
       and bad = "PStr ''bad a''" and good = "PStr ''good a''" and why = "PStr ''why a''"
       and i = 0 and shown = five_blocks]
    keys eight_examples_text
  have "examples_to_use eight_examples = take 5 eight_examples"
    and "example_block bare_world 0 (numbered_example ''a'') =
       Inr (''\<newline>Example '' @ str_nat (0 + 1) @ '':\<newline>'' @
            ''User Query: '' @ fstr bare_world (PStr ''task a'') @ ''\<newline>'' @
            ''Bad format: '' @ fstr bare_world (PStr ''bad a'') @ ''\<newline>'' @
            ''Good format: '' @ fstr bare_world (PStr ''good a'') @ ''\<newline>'' @
            ''Changes made: '' @ fstr bare_world (PStr ''why a'') @ ''\<newline>'')"
    and "formatting_request bare_world reviewed_state eight_examples =
       Inr \<lparr>model = claude_model, max_tokens = 2048, temperature = 0,
            system = formatting_system,
            messages = [(''user'',
              formatting_prompt bare_world reviewed_state five_blocks
                (current_answer reviewed_state))]\<rparr>"
    and "sublist five_blocks
       (formatting_prompt bare_world reviewed_state five_blocks (current_answer reviewed_state))"
    by blast+
  with t eight_examples_text eight_examples_prompt show ?thesis
    by (simp add: fstr_def str_nat_digits)
qed

section \<open>The extraction strategies (C1)\<close>

text \<open>
  C1, as amended. For every response text the parser of the adequacy and formatting
  stages selects one text by the fences that are present and gives that text alone to
  the decoder: with a fence \<^verbatim>\<open>```json\<close>, the text after its leftmost occurrence, up to the
  next such fence, cut at its first \<^verbatim>\<open>```\<close>; else with a fence \<^verbatim>\<open>```\<close>, the text between its
  leftmost occurrence and the next one; else the whole text; each one trimmed. The
  extraction never raises. No other strategy is tried when the selected text does not
  decode: the result is the decoded value, the fallback of the stage when the decoder
  raises \<^verbatim>\<open>json.JSONDecodeError\<close>, and any other exception of the decoder as it is.
  (\<open>text_before\<close> and \<open>text_after\<close> cut at the leftmost occurrence of the separator.)
\<close>

theorem extraction_selects_by_fence_presence:
  "extract_json_content t = Inr (selected_content t)
   \<and> parse_response loads t fallback =
       (case loads (selected_content t) of
          Loaded v \<Rightarrow> Inr v
        | JSONDecodeError \<Rightarrow> Inr fallback
        | LoadsRaised name \<Rightarrow> Inl (DecoderError name))
   \<and> (sublist sep t \<and> sep \<noteq> [] \<longrightarrow>
        t = text_before sep t @ sep @ text_after sep t
        \<and> \<not> sublist sep (text_before sep t @ butlast sep))
   \<and> (\<not> sublist sep t \<longrightarrow> text_before sep t = t)"
proof -
  have cut: "t = text_before sep t @ sep @ text_after sep t
        \<and> \<not> sublist sep (text_before sep t @ butlast sep)"
    if "sublist sep t" "sep \<noteq> []"
  proof -
    from that(1) obtain a b where ab: "find_sep sep t = Some (a, b)"
      using find_sep_None_iff [of sep t] by (cases "find_sep sep t") auto
    with find_sep_decomp [OF ab] find_sep_leftmost [OF ab that(2)] show ?thesis
      by (simp add: text_before_def text_after_def)
  qed
  have whole: "text_before sep t = t" if "\<not> sublist sep t"
    using that find_sep_None_iff [of sep t] by (simp add: text_before_def)
  from cut whole extract_selected [of t] parse_response_selected [of loads t fallback]
  show ?thesis by blast
qed

lemma selected_content_fenced_reply: "selected_content fenced_reply = adequacy_document"
  by code_simp

lemma before_fenced_reply:
  "text_before ''```json'' fenced_reply = ''Here is my evaluation:\<newline>''"
  by code_simp

lemma after_fenced_reply:
  "text_after ''```json'' fenced_reply =
     ''\<newline>'' @ adequacy_document @ ''\<newline>```\<newline>Done.''"
  by code_simp

lemma selected_content_refusal:
  "selected_content ''I cannot help with that.'' = ''I cannot help with that.''"
  by code_simp

lemma selected_content_deep_nesting: "selected_content deep_nesting = deep_nesting"
proof -
  have a: "\<not> sublist ''```json'' deep_nesting"
    using set_mono_sublist [of "''```json''" deep_nesting] by (auto simp: deep_nesting_def)
  have b: "\<not> sublist ''```'' deep_nesting"
    using set_mono_sublist [of "''```''" deep_nesting] by (auto simp: deep_nesting_def)
  have c: "\<not> py_isspace (CHR ''['')" by code_simp
  have d: "dropWhile py_isspace (replicate n (CHR ''['')) = replicate n (CHR ''['')" for n
    by (cases n) (auto simp: c)
  have "py_strip deep_nesting = deep_nesting"
    by (simp add: py_strip_def deep_nesting_def c d)
  with a b show ?thesis by (simp add: selected_content_def)
qed

theorem extraction_selects_by_fence_presence_witness:
  "extract_json_content fenced_reply = Inr adequacy_document
   \<and> parse_response table_decoder fenced_reply PNone = Inr (PDict
         [(''adequately_addressed'', PBool False),
          (''missing_aspects'', PList [PStr ''where the link is'']),
          (''suggestions'', PList [PStr ''Say where the link is'']),
          (''improved_answer'',
             PStr ''Go to Settings, open Security, then click the reset password link.'')])
   \<and> parse_response table_decoder ''I cannot help with that.'' (PStr ''fallback'') =
       Inr (PStr ''fallback'')
   \<and> parse_response nesting_decoder deep_nesting (PStr ''fallback'') =
       Inl (DecoderError ''RecursionError'')
   \<and> sublist ''```json'' fenced_reply
   \<and> fenced_reply =
       ''Here is my evaluation:\<newline>'' @ ''```json'' @
       (''\<newline>'' @ adequacy_document @ ''\<newline>```\<newline>Done.'')"
proof -
  have s: "sublist ''```json'' fenced_reply" by code_simp
  have d: "table_decoder adequacy_document = Loaded (PDict
         [(''adequately_addressed'', PBool False),
          (''missing_aspects'', PList [PStr ''where the link is'']),
          (''suggestions'', PList [PStr ''Say where the link is'']),
          (''improved_answer'',
             PStr ''Go to Settings, open Security, then click the reset password link.'')])"
    by code_simp
  have r: "table_decoder ''I cannot help with that.'' = JSONDecodeError" by code_simp
  have n: "nesting_decoder deep_nesting = LoadsRaised ''RecursionError''"
    by (simp add: nesting_decoder_def)
  from extraction_selects_by_fence_presence [of fenced_reply table_decoder PNone "''```json''"]
    extraction_selects_by_fence_presence [of "''I cannot help with that.''" table_decoder
      "PStr ''fallback''" "''```json''"]
    extraction_selects_by_fence_presence [of deep_nesting nesting_decoder
      "PStr ''fallback''" "''```json''"]
  show ?thesis
    by (simp only: selected_content_fenced_reply before_fenced_reply after_fenced_reply
        selected_content_refusal selected_content_deep_nesting s d r n
        loads_result.case) simp
qed

text \<open>
  C1 as stated fails: the response \<open>fence_in_answer\<close> is a JSON object as it stands, so
  its third strategy (the trimmed whole text) gives a text that decodes, while the text
  after the fence \<^verbatim>\<open>```json\<close> in it (the first strategy, which the code selects) does
  not. A later strategy is not used: the result is the fallback.
\<close>

theorem later_strategy_not_tried_counterexample:
  "extract_json_content fence_in_answer = Inr [CHR 0x22, CHR ''}'']
   \<and> table_decoder [CHR 0x22, CHR ''}''] = JSONDecodeError
   \<and> table_decoder (py_strip fence_in_answer) =
       Loaded (PDict [(''improved_answer'', PStr ''```json'')])
   \<and> parse_response table_decoder fence_in_answer (PStr ''fallback'') =
       Inr (PStr ''fallback'')"
  by code_simp

section \<open>The change summary: the two lists (C7)\<close>

lemma adequacy_changes_eq:
  "adequacy_changes state =
     (case adequacy_assessment state of
        None \<Rightarrow> PList []
      | Some d \<Rightarrow>
          (case map_of d ''adequately_addressed'' of
             None \<Rightarrow> PList []
           | Some v \<Rightarrow> if truthy v then PList [] else dict_get d ''suggestions'' (PList [])))"
proof (cases "adequacy_assessment state")
  case None
  then show ?thesis by (simp add: adequacy_changes_def)
next
  case (Some d)
  show ?thesis
  proof (cases "map_of d ''adequately_addressed''")
    case None
    with Some show ?thesis by (simp add: adequacy_changes_def dict_get_def)
  next
    case (Some v)
    then have "d \<noteq> []" by auto
    with Some \<open>adequacy_assessment state = Some d\<close> show ?thesis
      by (simp add: adequacy_changes_def dict_get_def)
  qed
qed

lemma formatting_changes_eq:
  "formatting_changes state =
     (case format_assessment state of
        None \<Rightarrow> PList []
      | Some d \<Rightarrow> dict_get d ''improvements_made'' (PList []))"
  by (auto simp: formatting_changes_def dict_get_def split: option.splits)

text \<open>
  Where the field \<^verbatim>\<open>adequately_addressed\<close> is a Boolean whenever it is present, the issues
  are the suggestions exactly when the field is false.
\<close>

lemma adequacy_changes_of_boolean_field:
  assumes "adequacy_assessment state = Some d"
    and "map_of d ''adequately_addressed'' = Some (PBool b)"
  shows "adequacy_changes state =
     (if b then PList [] else dict_get d ''suggestions'' (PList []))"
  using assms by (simp add: adequacy_changes_eq)

text \<open>
  C7, as amended. For every state that enters the final stage, \<^verbatim>\<open>adequacy_issues\<close> is
  \<^verbatim>\<open>adequacy_assessment.suggestions\<close> when the assessment is present and its field
  \<^verbatim>\<open>adequately_addressed\<close> is present and false in the truth test of Python (false,
  \<^verbatim>\<open>null\<close>, zero, or an empty string, list or object), and the empty list otherwise;
  \<^verbatim>\<open>formatting_improvements\<close> is \<^verbatim>\<open>format_assessment.improvements_made\<close> when the format
  assessment is present, else the empty list. (A field \<^verbatim>\<open>suggestions\<close> or
  \<^verbatim>\<open>improvements_made\<close> that an assessment lacks reads as the empty list.)
\<close>

theorem summary_lists_follow_assessments:
  "summary_field (create_final_answer w state (Some c)) ''adequacy_issues'' =
     Some (case adequacy_assessment state of
             None \<Rightarrow> PList []
           | Some d \<Rightarrow>
               (case map_of d ''adequately_addressed'' of
                  None \<Rightarrow> PList []
                | Some v \<Rightarrow>
                    if truthy v then PList [] else dict_get d ''suggestions'' (PList [])))
   \<and> summary_field (create_final_answer w state (Some c)) ''formatting_improvements'' =
     Some (case format_assessment state of
             None \<Rightarrow> PList []
           | Some d \<Rightarrow> dict_get d ''improvements_made'' (PList []))"
  by (simp add: create_final_answer_Some summary_field_def returned_field_def
      changes_summary_def adequacy_changes_eq formatting_changes_eq)

theorem summary_lists_follow_assessments_witness:
  "summary_field (create_final_answer bare_world reviewed_state (Some silent_client))
     ''adequacy_issues'' = Some (PList [PStr ''Say where the link is''])
   \<and> summary_field (create_final_answer bare_world reviewed_state (Some silent_client))
     ''formatting_improvements'' = Some (PList [PStr ''numbered steps''])
   \<and> summary_field (create_final_answer bare_world empty_answers_state (Some silent_client))
     ''adequacy_issues'' = Some (PList [])
   \<and> summary_field (create_final_answer bare_world grammar_fixed_state (Some silent_client))
     ''formatting_improvements'' = Some (PList [])"
  using summary_lists_follow_assessments [of bare_world reviewed_state silent_client]
    summary_lists_follow_assessments [of bare_world empty_answers_state silent_client]
    summary_lists_follow_assessments [of bare_world grammar_fixed_state silent_client]
  by (simp add: reviewed_state_def empty_answers_state_def empty_grammar_state_def
      grammar_fixed_state_def dict_get_def)

text \<open>
  C7 as stated fails where the model answers with \<^verbatim>\<open>"adequately_addressed": null\<close>: the
  adequacy stage stores the decoded assessment as it is, its field is not false, and the
  final stage gives the suggestions as the issues.
\<close>

theorem null_adequately_addressed_counterexample:
  "run_node Check_adequacy (\<lambda>s. check_adequacy scripted_world s (Some null_client))
     ([Fix_grammar], Inr grammar_fixed_state) =
     ([Fix_grammar, Check_adequacy], Inr null_addressed_state)
   \<and> adequacy_assessment null_addressed_state = Some null_assessment
   \<and> map_of null_assessment ''adequately_addressed'' = Some PNone
   \<and> PNone \<noteq> PBool False
   \<and> summary_field (create_final_answer scripted_world null_addressed_state (Some null_client))
        ''adequacy_issues'' = Some (PList [PStr ''Say where the link is''])"
proof -
  have stored: "run_node Check_adequacy
      (\<lambda>s. check_adequacy scripted_world s (Some null_client))
      ([Fix_grammar], Inr grammar_fixed_state) =
      ([Fix_grammar, Check_adequacy], Inr null_addressed_state)"
    by code_simp
  have issues: "summary_field
      (create_final_answer scripted_world null_addressed_state (Some null_client))
      ''adequacy_issues'' = Some (PList [PStr ''Say where the link is''])"
    by (simp add: create_final_answer_Some summary_field_def returned_field_def
        changes_summary_def adequacy_changes_eq null_addressed_state_def null_assessment_def
        grammar_fixed_state_def dict_get_def)
  from stored issues show ?thesis
    by (simp add: null_addressed_state_def null_assessment_def)
qed

section \<open>A response that does not decode (C2)\<close>

text \<open>
  C2, as amended. For every response text of the adequacy request whose extracted text
  the decoder rejects with \<^verbatim>\<open>json.JSONDecodeError\<close> (plain prose with no fences is such a
  text), \<^verbatim>\<open>check_adequacy\<close> raises no exception and returns exactly the record
  \<^verbatim>\<open>adequately_addressed\<close> = false, \<^verbatim>\<open>missing_aspects\<close> = ["Unable to parse assessment"],
  \<^verbatim>\<open>suggestions\<close> = ["Error processing assessment"], \<^verbatim>\<open>improved_answer\<close> =
  \<^verbatim>\<open>grammar_fixed_answer\<close> if that is present and not empty, else \<^verbatim>\<open>proposed_answer\<close>; the
  run goes on with that record in the state, and the formatting node is entered next.
  When the decoder raises another exception on the extracted text, \<^verbatim>\<open>check_adequacy\<close>
  raises it, and the run ends in the adequacy node: the formatting node is not entered.
\<close>

theorem unparseable_adequacy_response_gives_sentinel:
  assumes "c (adequacy_request w state) = Inr response"
    and "extract_json_content response = Inr content"
  shows "(json_loads w content = JSONDecodeError \<longrightarrow>
           check_adequacy w state (Some c) =
             Inr [(''adequacy_assessment'', PDict (adequacy_sentinel state))]
           \<and> run_node Check_adequacy (\<lambda>s. check_adequacy w s (Some c)) (trace, Inr state) =
             (trace @ [Check_adequacy],
              Inr (state\<lparr>adequacy_assessment := Some (adequacy_sentinel state)\<rparr>))
           \<and> fst (run_node Improve_formatting node
                   (run_node Check_adequacy (\<lambda>s. check_adequacy w s (Some c))
                      (trace, Inr state))) =
             trace @ [Check_adequacy, Improve_formatting])
         \<and> (json_loads w content = LoadsRaised name \<longrightarrow>
           check_adequacy w state (Some c) = Inl (DecoderError name)
           \<and> run_node Improve_formatting node
                 (run_node Check_adequacy (\<lambda>s. check_adequacy w s (Some c))
                    (trace, Inr state)) =
             (trace @ [Check_adequacy], Inl (DecoderError name)))"
proof -
  have fallback: "adequacy_fallback state = PDict (adequacy_sentinel state)"
    by (simp add: adequacy_fallback_def adequacy_sentinel_def grammar_fixed_or_proposed_eq)
  have stage: "check_adequacy w state (Some c) =
      and_then (parse_response (json_loads w) response (adequacy_fallback state))
        (\<lambda>adequacy_assessment. Inr [(''adequacy_assessment'', adequacy_assessment)])"
    using assms(1)
    by (simp add: check_adequacy_def ensure_client_Some create_message_def and_then_def)
  have parse: "parse_response (json_loads w) response (adequacy_fallback state) =
      (case json_loads w content of
         Loaded v \<Rightarrow> Inr v
       | JSONDecodeError \<Rightarrow> Inr (PDict (adequacy_sentinel state))
       | LoadsRaised name \<Rightarrow> Inl (DecoderError name))"
    using assms(2) by (simp add: parse_response_def and_then_def fallback)
  have rejected: "check_adequacy w state (Some c) =
             Inr [(''adequacy_assessment'', PDict (adequacy_sentinel state))]
           \<and> run_node Check_adequacy (\<lambda>s. check_adequacy w s (Some c)) (trace, Inr state) =
             (trace @ [Check_adequacy],
              Inr (state\<lparr>adequacy_assessment := Some (adequacy_sentinel state)\<rparr>))
           \<and> fst (run_node Improve_formatting node
                   (run_node Check_adequacy (\<lambda>s. check_adequacy w s (Some c))
                      (trace, Inr state))) =
             trace @ [Check_adequacy, Improve_formatting]"
    if none: "json_loads w content = JSONDecodeError"
  proof -
    have returned: "check_adequacy w state (Some c) =
        Inr [(''adequacy_assessment'', PDict (adequacy_sentinel state))]"
      by (simp add: stage parse none and_then_def)
    have step: "run_node Check_adequacy (\<lambda>s. check_adequacy w s (Some c)) (trace, Inr state) =
        (trace @ [Check_adequacy],
         Inr (state\<lparr>adequacy_assessment := Some (adequacy_sentinel state)\<rparr>))"
      by (simp add: run_node_def returned and_then_def set_field_def as_optional_dict_def)
    have next_node: "fst (run_node Improve_formatting node
        (run_node Check_adequacy (\<lambda>s. check_adequacy w s (Some c)) (trace, Inr state))) =
        trace @ [Check_adequacy, Improve_formatting]"
      unfolding step by (simp add: run_node_def)
    from returned step next_node show ?thesis by blast
  qed
  have raised: "check_adequacy w state (Some c) = Inl (DecoderError name)
           \<and> run_node Improve_formatting node
                 (run_node Check_adequacy (\<lambda>s. check_adequacy w s (Some c))
                    (trace, Inr state)) =
             (trace @ [Check_adequacy], Inl (DecoderError name))"
    if raised: "json_loads w content = LoadsRaised name"
  proof -
    have returned: "check_adequacy w state (Some c) = Inl (DecoderError name)"
      by (simp add: stage parse raised and_then_def)
    have step: "run_node Check_adequacy (\<lambda>s. check_adequacy w s (Some c)) (trace, Inr state) =
        (trace @ [Check_adequacy], Inl (DecoderError name))"
      by (simp add: run_node_def returned and_then_def)
    have stopped: "run_node Improve_formatting node
        (run_node Check_adequacy (\<lambda>s. check_adequacy w s (Some c)) (trace, Inr state)) =
        (trace @ [Check_adequacy], Inl (DecoderError name))"
      unfolding step by (simp add: run_node_def)
    from returned stopped show ?thesis by blast
  qed
  from rejected raised show ?thesis by blast
qed

lemma extract_plain_refusal:
  "extract_json_content ''I cannot help with that.'' = Inr ''I cannot help with that.''"
  by code_simp

lemma extract_deep_nesting: "extract_json_content deep_nesting = Inr deep_nesting"
proof -
  have a: "\<not> sublist ''```json'' deep_nesting"
    using set_mono_sublist [of "''```json''" deep_nesting] by (auto simp: deep_nesting_def)
  have b: "\<not> sublist ''```'' deep_nesting"
    using set_mono_sublist [of "''```''" deep_nesting] by (auto simp: deep_nesting_def)
  have c: "\<not> py_isspace (CHR ''['')" by code_simp
  have d: "dropWhile py_isspace (replicate n (CHR ''['')) = replicate n (CHR ''['')" for n
    by (cases n) (auto simp: c)
  have "py_strip deep_nesting = deep_nesting"
    by (simp add: py_strip_def deep_nesting_def c d)
  with a b show ?thesis by (simp add: extract_json_content_def)
qed

theorem unparseable_adequacy_response_gives_sentinel_witness:
  "refusing_client (adequacy_request bare_world grammar_fixed_state) =
     Inr ''I cannot help with that.''
   \<and> extract_json_content ''I cannot help with that.'' = Inr ''I cannot help with that.''
   \<and> json_loads bare_world ''I cannot help with that.'' = JSONDecodeError
   \<and> check_adequacy bare_world grammar_fixed_state (Some refusing_client) =
     Inr [(''adequacy_assessment'', PDict
       [(''adequately_addressed'', PBool False),
        (''missing_aspects'', PList [PStr ''Unable to parse assessment'']),
        (''suggestions'', PList [PStr ''Error processing assessment'']),
        (''improved_answer'', PStr ''Go to Settings, then click the reset password link.'')])]
   \<and> nesting_client
       (adequacy_request (bare_world\<lparr>json_loads := nesting_decoder\<rparr>) grammar_fixed_state) =
     Inr deep_nesting
   \<and> json_loads (bare_world\<lparr>json_loads := nesting_decoder\<rparr>) deep_nesting =
     LoadsRaised ''RecursionError''
   \<and> check_adequacy (bare_world\<lparr>json_loads := nesting_decoder\<rparr>) grammar_fixed_state
       (Some nesting_client) = Inl (DecoderError ''RecursionError'')"
proof -
  have a: "refusing_client (adequacy_request bare_world grammar_fixed_state) =
     Inr ''I cannot help with that.''"
    by (simp add: refusing_client_def)
  have b: "json_loads bare_world ''I cannot help with that.'' = JSONDecodeError"
    by (simp add: bare_world_def)
  have s: "adequacy_sentinel grammar_fixed_state =
       [(''adequately_addressed'', PBool False),
        (''missing_aspects'', PList [PStr ''Unable to parse assessment'']),
        (''suggestions'', PList [PStr ''Error processing assessment'']),
        (''improved_answer'', PStr ''Go to Settings, then click the reset password link.'')]"
    by (simp add: adequacy_sentinel_def nonempty_grammar_fixed_or_proposed_def
        grammar_fixed_state_def)
  have a': "nesting_client
       (adequacy_request (bare_world\<lparr>json_loads := nesting_decoder\<rparr>) grammar_fixed_state) =
     Inr deep_nesting"
    by (simp add: nesting_client_def)
  have b': "json_loads (bare_world\<lparr>json_loads := nesting_decoder\<rparr>) deep_nesting =
     LoadsRaised ''RecursionError''"
    by (simp add: nesting_decoder_def)
  from unparseable_adequacy_response_gives_sentinel
    [where c = refusing_client and w = bare_world and state = grammar_fixed_state
       and response = "''I cannot help with that.''"
       and content = "''I cannot help with that.''", OF a extract_plain_refusal]
    unparseable_adequacy_response_gives_sentinel
    [where c = nesting_client and w = "bare_world\<lparr>json_loads := nesting_decoder\<rparr>"
       and state = grammar_fixed_state and response = deep_nesting
       and content = deep_nesting and name = "''RecursionError''",
       OF a' extract_deep_nesting]
    a b a' b' extract_plain_refusal
  show ?thesis by (simp add: s)
qed

text \<open>
  C2 as stated fails in two ways. Where the grammar stage returned the empty text, the
  grammar-fixed answer is present and the improved answer of the record is the proposed
  answer. Where the decoder raises \<^verbatim>\<open>RecursionError\<close> on the response (a text that cannot
  be parsed), \<^verbatim>\<open>check_adequacy\<close> raises it and gives no record.
\<close>

theorem sentinel_improved_answer_counterexample:
  "grammar_fixed_answer empty_grammar_state = Some []
   \<and> json_loads bare_world ''I cannot help with that.'' = JSONDecodeError
   \<and> check_adequacy bare_world empty_grammar_state (Some refusing_client) =
     Inr [(''adequacy_assessment'', PDict
       [(''adequately_addressed'', PBool False),
        (''missing_aspects'', PList [PStr ''Unable to parse assessment'']),
        (''suggestions'', PList [PStr ''Error processing assessment'']),
        (''improved_answer'', PStr ''go to setting then click reste pasword link'')])]
   \<and> check_adequacy (bare_world\<lparr>json_loads := nesting_decoder\<rparr>) grammar_fixed_state
       (Some nesting_client) = Inl (DecoderError ''RecursionError'')"
proof -
  have "parse_response (json_loads bare_world) ''I cannot help with that.''
      (adequacy_fallback empty_grammar_state) = Inr (adequacy_fallback empty_grammar_state)"
    by (simp add: parse_response_def extract_plain_refusal and_then_def bare_world_def)
  then have first: "check_adequacy bare_world empty_grammar_state (Some refusing_client) =
     Inr [(''adequacy_assessment'', PDict
       [(''adequately_addressed'', PBool False),
        (''missing_aspects'', PList [PStr ''Unable to parse assessment'']),
        (''suggestions'', PList [PStr ''Error processing assessment'']),
        (''improved_answer'', PStr ''go to setting then click reste pasword link'')])]"
    by (simp add: check_adequacy_def ensure_client_Some create_message_def and_then_def
        refusing_client_def adequacy_fallback_def grammar_fixed_or_proposed_eq
        nonempty_grammar_fixed_or_proposed_def empty_grammar_state_def bare_world_def)
  have "parse_response nesting_decoder deep_nesting fb = Inl (DecoderError ''RecursionError'')"
    for fb
    by (simp add: parse_response_def extract_deep_nesting and_then_def nesting_decoder_def)
  then have second: "check_adequacy (bare_world\<lparr>json_loads := nesting_decoder\<rparr>)
      grammar_fixed_state (Some nesting_client) = Inl (DecoderError ''RecursionError'')"
    by (simp add: check_adequacy_def ensure_client_Some create_message_def and_then_def
        nesting_client_def)
  from first second show ?thesis
    by (simp add: empty_grammar_state_def bare_world_def)
qed

end
